theory Spec2Isabelle
  imports Complex_Main "HOL-Library.Char_ord" "HOL-Library.List_Lexorder"
begin

section \<open>Python strings and the built-in functions the program calls\<close>

text \<open>
  A Python \<open>str\<close> is represented by the bytes of its UTF-8 encoding, as a \<^typ>\<open>string\<close>:
  this is what the program reads from its input file and writes to its report
  (both are opened with \<open>encoding='utf-8'\<close>).  The message literals of the source are
  Russian; each one is a constant below holding the bytes of the literal, with an English
  gloss.  The built-ins \<open>str.strip\<close>, \<open>str.split\<close>, \<open>int\<close> and \<open>float\<close> are
  written out as CPython 3.11 defines them on such text, which is taken to be well-formed
  UTF-8.
\<close>

datatype py_exception = ValueError string

subsection \<open>\<open>str.strip\<close>\<close>

text \<open>
  The white space of \<open>str.strip()\<close>: the code points U+0009..U+000D, U+001C..U+001F,
  U+0020, U+0085, U+00A0, U+1680, U+2000..U+200A, U+2028, U+2029, U+202F, U+205F and
  U+3000, each given by its UTF-8 bytes.
\<close>

definition ascii_spaces :: "char list" where
  "ascii_spaces =
     [CHR 0x09, CHR 0x0A, CHR 0x0B, CHR 0x0C, CHR 0x0D,
      CHR 0x1C, CHR 0x1D, CHR 0x1E, CHR 0x1F, CHR 0x20]"

definition wide_spaces :: "string list" where
  "wide_spaces =
     [[CHR 0xC2, CHR 0x85], [CHR 0xC2, CHR 0xA0], [CHR 0xE1, CHR 0x9A, CHR 0x80],
      [CHR 0xE2, CHR 0x80, CHR 0x80], [CHR 0xE2, CHR 0x80, CHR 0x81],
      [CHR 0xE2, CHR 0x80, CHR 0x82], [CHR 0xE2, CHR 0x80, CHR 0x83],
      [CHR 0xE2, CHR 0x80, CHR 0x84], [CHR 0xE2, CHR 0x80, CHR 0x85],
      [CHR 0xE2, CHR 0x80, CHR 0x86], [CHR 0xE2, CHR 0x80, CHR 0x87],
      [CHR 0xE2, CHR 0x80, CHR 0x88], [CHR 0xE2, CHR 0x80, CHR 0x89],
      [CHR 0xE2, CHR 0x80, CHR 0x8A], [CHR 0xE2, CHR 0x80, CHR 0xA8],
      [CHR 0xE2, CHR 0x80, CHR 0xA9], [CHR 0xE2, CHR 0x80, CHR 0xAF],
      [CHR 0xE2, CHR 0x81, CHR 0x9F], [CHR 0xE3, CHR 0x80, CHR 0x80]]"

definition space_seqs :: "string list" where
  "space_seqs = map (\<lambda>c. [c]) ascii_spaces @ wide_spaces"

definition starts_with :: "string \<Rightarrow> string \<Rightarrow> bool" where
  "starts_with s w = (take (length w) s = w)"

text \<open>Remove, as long as there is one, a leading occurrence of one of the sequences \<open>ws\<close>.\<close>

function strip_prefixes :: "string list \<Rightarrow> string \<Rightarrow> string" where
  "strip_prefixes ws s =
     (case find (\<lambda>w. w \<noteq> [] \<and> starts_with s w) ws of
        None \<Rightarrow> s
      | Some w \<Rightarrow> strip_prefixes ws (drop (length w) s))"
  by pat_completeness auto
termination
proof (relation "measure (\<lambda>(ws, s). length s)")
  show "wf (measure (\<lambda>(ws, s). length s))" by simp
next
  fix ws :: "string list" and s w :: string
  assume "find (\<lambda>w. w \<noteq> [] \<and> starts_with s w) ws = Some w"
  then have w: "w \<noteq> []" and t: "take (length w) s = w"
    by (auto simp: find_Some_iff starts_with_def)
  from t have "length (take (length w) s) = length w"
    by simp
  then have "length w \<le> length s"
    by simp
  with w show "((ws, drop (length w) s), (ws, s)) \<in> measure (\<lambda>(ws, s). length s)"
    by (cases w) auto
qed

declare strip_prefixes.simps [simp del]

definition py_lstrip :: "string \<Rightarrow> string" where
  "py_lstrip s = strip_prefixes space_seqs s"

definition py_rstrip :: "string \<Rightarrow> string" where
  "py_rstrip s = rev (strip_prefixes (map rev space_seqs) (rev s))"

definition py_strip :: "string \<Rightarrow> string" where
  "py_strip s = py_rstrip (py_lstrip s)"

subsection \<open>\<open>str.split(sep)\<close>\<close>

text \<open>
  \<open>split_from sep acc s\<close> scans \<open>s\<close> from the left for non-overlapping occurrences of
  \<open>sep\<close>; \<open>acc\<close> holds, reversed, the field read so far.  An empty separator raises
  \<open>ValueError\<close>.
\<close>

function split_from :: "string \<Rightarrow> string \<Rightarrow> string \<Rightarrow> string list" where
  "split_from sep acc [] = [rev acc]"
| "split_from sep acc (c # cs) =
     (if sep \<noteq> [] \<and> starts_with (c # cs) sep
      then rev acc # split_from sep [] (drop (length sep) (c # cs))
      else split_from sep (c # acc) cs)"
  by pat_completeness auto
termination
  by (relation "measure (\<lambda>(sep, acc, s). length s)") (auto simp: neq_Nil_conv)

definition py_split :: "string \<Rightarrow> string \<Rightarrow> py_exception + string list" where
  "py_split s sep =
     (if sep = [] then Inl (ValueError ''empty separator'') else Inr (split_from sep [] s))"

subsection \<open>The text that \<open>int\<close> and \<open>float\<close> read\<close>

text \<open>
  \<open>int\<close> and \<open>float\<close> first replace the characters of their argument that are not ASCII
  (CPython's \<open>_PyUnicode_TransformDecimalAndSpaceToASCII\<close>): a white space character
  becomes a blank, a decimal digit of any script becomes the ASCII digit of its value, and
  any other such character makes the conversion fail.  ASCII characters stay as they are.
  Then the white space of C's \<open>isspace\<close> is skipped at both ends; unlike the white space
  of \<open>str.strip\<close> it does not contain U+001C..U+001F.
\<close>

definition c_spaces :: "char list" where
  "c_spaces = [CHR 0x09, CHR 0x0A, CHR 0x0B, CHR 0x0C, CHR 0x0D, CHR 0x20]"

definition trim_c_spaces :: "string \<Rightarrow> string" where
  "trim_c_spaces s =
     rev (dropWhile (\<lambda>c. c \<in> set c_spaces) (rev (dropWhile (\<lambda>c. c \<in> set c_spaces) s)))"

text \<open>
  The decimal digits of Unicode 14.0 (the character database of CPython 3.11): each entry
  is the code point of a digit zero, and the digits one to nine follow it.
\<close>

definition decimal_zeros :: "int list" where
  "decimal_zeros =
     [0x0030, 0x0660, 0x06F0, 0x07C0, 0x0966, 0x09E6, 0x0A66, 0x0AE6, 0x0B66, 0x0BE6,
      0x0C66, 0x0CE6, 0x0D66, 0x0DE6, 0x0E50, 0x0ED0, 0x0F20, 0x1040, 0x1090, 0x17E0,
      0x1810, 0x1946, 0x19D0, 0x1A80, 0x1A90, 0x1B50, 0x1BB0, 0x1C40, 0x1C50, 0xA620,
      0xA8D0, 0xA900, 0xA9D0, 0xA9F0, 0xAA50, 0xABF0, 0xFF10, 0x104A0, 0x10D30, 0x11066,
      0x110F0, 0x11136, 0x111D0, 0x112F0, 0x11450, 0x114D0, 0x11650, 0x116C0, 0x11730,
      0x118E0, 0x11950, 0x11C50, 0x11D50, 0x11DA0, 0x16A60, 0x16AC0, 0x16B50, 0x1D7CE,
      0x1D7D8, 0x1D7E2, 0x1D7EC, 0x1D7F6, 0x1E140, 0x1E2F0, 0x1E950, 0x1FBF0]"

definition decimal_digit :: "int \<Rightarrow> int option" where
  "decimal_digit cp =
     (case find (\<lambda>z. z \<le> cp \<and> cp \<le> z + 9) decimal_zeros of
        None \<Rightarrow> None
      | Some z \<Rightarrow> Some (cp - z))"

text \<open>
  The number of bytes of the UTF-8 encoded character that starts with the byte \<open>c\<close>
  (\<open>0\<close> if no character starts with it), and the code point that the bytes of one
  character encode.
\<close>

definition utf8_width :: "char \<Rightarrow> nat" where
  "utf8_width c =
     (let b = (of_char c :: int)
      in if b < 0x80 then 1
         else if 0xC2 \<le> b \<and> b \<le> 0xDF then 2
         else if 0xE0 \<le> b \<and> b \<le> 0xEF then 3
         else if 0xF0 \<le> b \<and> b \<le> 0xF4 then 4
         else 0)"

definition utf8_point :: "string \<Rightarrow> int" where
  "utf8_point bs =
     (case map of_char bs of
        [a] \<Rightarrow> a
      | [a, b] \<Rightarrow> (a - 0xC0) * 64 + (b - 0x80)
      | [a, b, c] \<Rightarrow> (a - 0xE0) * 4096 + (b - 0x80) * 64 + (c - 0x80)
      | [a, b, c, d] \<Rightarrow> (a - 0xF0) * 262144 + (b - 0x80) * 4096 + (c - 0x80) * 64 + (d - 0x80)
      | _ \<Rightarrow> - 1)"

definition digit_char :: "nat \<Rightarrow> char" where
  "digit_char d = ''0123456789'' ! d"

function ascii_form :: "string \<Rightarrow> string option" where
  "ascii_form [] = Some []"
| "ascii_form (c # cs) =
     (if \<not> digit7 c then map_option ((#) c) (ascii_form cs)
      else
        (case find (\<lambda>w. w \<noteq> [] \<and> starts_with (c # cs) w) wide_spaces of
           Some w \<Rightarrow> map_option ((#) CHR '' '') (ascii_form (drop (length w) (c # cs)))
         | None \<Rightarrow>
             (let n = utf8_width c; bs = take n (c # cs)
              in if n = 0 \<or> length bs < n then None
                 else
                   (case decimal_digit (utf8_point bs) of
                      None \<Rightarrow> None
                    | Some d \<Rightarrow>
                        map_option ((#) (digit_char (nat d)))
                          (ascii_form (drop n (c # cs)))))))"
  by pat_completeness auto
termination
proof (relation "measure length")
  show "wf (measure length)" by simp
next
  fix c :: char and cs :: string
  show "(cs, c # cs) \<in> measure length" by simp
next
  fix c :: char and cs w :: string
  assume "find (\<lambda>w. w \<noteq> [] \<and> starts_with (c # cs) w) wide_spaces = Some w"
  then have "w \<noteq> []"
    by (auto simp: find_Some_iff)
  then show "(drop (length w) (c # cs), c # cs) \<in> measure length"
    by (cases w) auto
next
  fix c :: char and cs bs :: string and n :: nat
  assume "n = utf8_width c" and "bs = take n (c # cs)" and "\<not> (n = 0 \<or> length bs < n)"
  then show "(drop n (c # cs), c # cs) \<in> measure length"
    by auto
qed

declare ascii_form.simps [simp del]

subsection \<open>\<open>int(s)\<close>\<close>

definition is_digit :: "char \<Rightarrow> bool" where
  "is_digit c = (c \<in> set ''0123456789'')"

definition digit_val :: "char \<Rightarrow> int" where
  "digit_val c = of_char c - 48"

text \<open>
  The digits of a digit part, \<open>digit (["_"] digit)*\<close>, with the underscores dropped;
  \<open>prev\<close> says that the character before was a digit.
\<close>

fun digit_run :: "bool \<Rightarrow> string \<Rightarrow> string option" where
  "digit_run prev [] = (if prev then Some [] else None)"
| "digit_run prev (c # cs) =
     (if is_digit c then map_option ((#) c) (digit_run True cs)
      else if c = CHR ''_'' \<and> prev then digit_run False cs
      else None)"

definition decimal_value :: "string \<Rightarrow> int" where
  "decimal_value ds = foldl (\<lambda>a c. 10 * a + digit_val c) 0 ds"

definition split_sign :: "string \<Rightarrow> bool \<times> string" where
  "split_sign s =
     (case s of
        [] \<Rightarrow> (False, [])
      | c # cs \<Rightarrow>
          if c = CHR ''-'' then (True, cs)
          else if c = CHR ''+'' then (False, cs)
          else (False, s))"

definition signed_digits :: "string \<Rightarrow> int option" where
  "signed_digits s =
     (case split_sign s of
        (neg, body) \<Rightarrow>
          (case digit_run False body of
             None \<Rightarrow> None
           | Some ds \<Rightarrow> Some (if neg then - decimal_value ds else decimal_value ds)))"

text \<open>
  \<open>None\<close> stands for the \<open>ValueError\<close> that \<open>int\<close> raises.  A literal of more
  digits than the interpreter's limit, 4300 unless it is configured otherwise, is refused.
\<close>

definition int_max_str_digits :: int where
  "int_max_str_digits = 4300"

definition py_int :: "string \<Rightarrow> int option" where
  "py_int s =
     (case ascii_form s of
        None \<Rightarrow> None
      | Some a \<Rightarrow>
          (case split_sign (trim_c_spaces a) of
             (neg, body) \<Rightarrow>
               (case digit_run False body of
                  None \<Rightarrow> None
                | Some ds \<Rightarrow>
                    if int_max_str_digits < int (length ds) then None
                    else Some (if neg then - decimal_value ds else decimal_value ds))))"

subsection \<open>\<open>float\<close>: the values\<close>

text \<open>
  A Python \<open>float\<close> is an IEEE 754 binary64 value: a finite value, given by its sign bit
  and its magnitude (a rational; the sign bit tells \<open>-0.0\<close> from \<open>0.0\<close>), an infinity, or
  a NaN.
\<close>

datatype pyfloat = FFinite bool rat | FInf bool | FNaN

text \<open>\<open>b\<close> to the power \<open>k \<ge> 0\<close>, by repeated squaring.\<close>

function ipow :: "rat \<Rightarrow> int \<Rightarrow> rat" where
  "ipow b k =
     (if k \<le> 0 then 1
      else if even k then ipow (b * b) (k div 2)
      else b * ipow (b * b) (k div 2))"
  by pat_completeness auto
termination
  by (relation "measure (\<lambda>(b, k). nat k)") auto

declare ipow.simps [simp del]

definition pow2 :: "int \<Rightarrow> rat" where
  "pow2 k = (if 0 \<le> k then ipow 2 k else 1 / ipow 2 (- k))"

definition pow10 :: "int \<Rightarrow> rat" where
  "pow10 k = (if 0 \<le> k then ipow 10 k else 1 / ipow 10 (- k))"

text \<open>The number of binary digits of a positive integer.\<close>

function bit_length :: "int \<Rightarrow> int" where
  "bit_length n = (if n \<le> 0 then 0 else 1 + bit_length (n div 2))"
  by pat_completeness auto
termination
  by (relation "measure nat") auto

declare bit_length.simps [simp del]

text \<open>For \<open>x > 0\<close>, the \<open>e\<close> with \<open>2 ^ e \<le> x < 2 ^ (e + 1)\<close>.\<close>

definition floor_log2 :: "rat \<Rightarrow> int" where
  "floor_log2 x =
     (case quotient_of x of
        (a, b) \<Rightarrow>
          (let e0 = bit_length a - bit_length b
           in if pow2 e0 \<le> x then e0 else e0 - 1))"

definition round_half_even :: "rat \<Rightarrow> int" where
  "round_half_even x =
     (let f = \<lfloor>x\<rfloor>; d = x - of_int f
      in if d < 1 / 2 then f
         else if 1 / 2 < d then f + 1
         else if even f then f else f + 1)"

text \<open>
  Rounding a magnitude \<open>x \<ge> 0\<close> to binary64, to nearest and ties to even: 53 significant
  bits, the smallest exponent of the last bit is \<open>-1074\<close> (subnormals), and a result of
  \<open>2 ^ 1024\<close> or more is an infinity.
\<close>

definition round64 :: "bool \<Rightarrow> rat \<Rightarrow> pyfloat" where
  "round64 neg x =
     (if x = 0 then FFinite neg 0
      else
        (let q = max (floor_log2 x - 52) (- 1074);
             v = of_int (round_half_even (x / pow2 q)) * pow2 q
         in if pow2 1024 \<le> v then FInf neg else FFinite neg v))"

definition float_of_int :: "int \<Rightarrow> pyfloat" where
  "float_of_int n = round64 (n < 0) (of_int \<bar>n\<bar>)"

text \<open>The comparisons \<open>a < b\<close> and \<open>a >= b\<close> of two floats; with a NaN both are false.\<close>

definition signed_value :: "bool \<Rightarrow> rat \<Rightarrow> rat" where
  "signed_value neg m = (if neg then - m else m)"

fun flt_less :: "pyfloat \<Rightarrow> pyfloat \<Rightarrow> bool" where
  "flt_less FNaN b = False"
| "flt_less a FNaN = False"
| "flt_less (FInf na) (FInf nb) = (na \<and> \<not> nb)"
| "flt_less (FInf na) (FFinite nb mb) = na"
| "flt_less (FFinite na ma) (FInf nb) = (\<not> nb)"
| "flt_less (FFinite na ma) (FFinite nb mb) = (signed_value na ma < signed_value nb mb)"

fun flt_ge :: "pyfloat \<Rightarrow> pyfloat \<Rightarrow> bool" where
  "flt_ge FNaN b = False"
| "flt_ge a FNaN = False"
| "flt_ge a b = (\<not> flt_less a b)"

subsection \<open>\<open>float(s)\<close>\<close>

definition lower_ascii :: "char \<Rightarrow> char" where
  "lower_ascii c =
     (case map_of (zip ''ABCDEFGHIJKLMNOPQRSTUVWXYZ'' ''abcdefghijklmnopqrstuvwxyz'') c of
        None \<Rightarrow> c
      | Some d \<Rightarrow> d)"

definition float_special :: "bool \<Rightarrow> string \<Rightarrow> pyfloat option" where
  "float_special neg body =
     (let l = map lower_ascii body
      in if l = ''inf'' \<or> l = ''infinity'' then Some (FInf neg)
         else if l = ''nan'' then Some FNaN
         else None)"

text \<open>
  \<open>split_at_first P s\<close>: the part of \<open>s\<close> before its first character satisfying \<open>P\<close>,
  and the part after that character when there is one.
\<close>

definition split_at_first :: "(char \<Rightarrow> bool) \<Rightarrow> string \<Rightarrow> string \<times> string option" where
  "split_at_first P s =
     (case dropWhile (\<lambda>c. \<not> P c) s of
        [] \<Rightarrow> (s, None)
      | c # r \<Rightarrow> (takeWhile (\<lambda>c. \<not> P c) s, Some r))"

text \<open>
  The mantissa \<open>digits\<close>, \<open>digits "."\<close>, \<open>digits "." digits\<close> or \<open>"." digits\<close>: its
  digits before and after the point.
\<close>

definition parse_mantissa :: "string \<Rightarrow> (string \<times> string) option" where
  "parse_mantissa m =
     (case split_at_first (\<lambda>c. c = CHR ''.'') m of
        (ip, None) \<Rightarrow> map_option (\<lambda>d. (d, [])) (digit_run False ip)
      | (ip, Some fp) \<Rightarrow>
          if ip = [] then map_option (\<lambda>d. ([], d)) (digit_run False fp)
          else if fp = [] then map_option (\<lambda>d. (d, [])) (digit_run False ip)
          else
            (case (digit_run False ip, digit_run False fp) of
               (Some a, Some b) \<Rightarrow> Some (a, b)
             | _ \<Rightarrow> None))"

text \<open>The exact value of an unsigned decimal literal with an optional exponent.\<close>

definition parse_decimal :: "string \<Rightarrow> rat option" where
  "parse_decimal body =
     (case split_at_first (\<lambda>c. c = CHR ''e'' \<or> c = CHR ''E'') body of
        (m, ex) \<Rightarrow>
          (case parse_mantissa m of
             None \<Rightarrow> None
           | Some (ip, fp) \<Rightarrow>
               (case (case ex of None \<Rightarrow> Some 0 | Some e \<Rightarrow> signed_digits e) of
                  None \<Rightarrow> None
                | Some k \<Rightarrow>
                    Some (of_int (decimal_value (ip @ fp)) * pow10 (k - int (length fp))))))"

text \<open>
  \<open>None\<close> stands for the \<open>ValueError\<close> that \<open>float\<close> raises.  The literal is rounded
  correctly; one too large gives an infinity.
\<close>

definition py_float :: "string \<Rightarrow> pyfloat option" where
  "py_float s =
     (case ascii_form s of
        None \<Rightarrow> None
      | Some a \<Rightarrow>
          (case split_sign (trim_c_spaces a) of
             (neg, body) \<Rightarrow>
               (case float_special neg body of
                  Some f \<Rightarrow> Some f
                | None \<Rightarrow> map_option (round64 neg) (parse_decimal body))))"

section \<open>The record validator\<close>

subsection \<open>Messages\<close>

text \<open>
  In the order of the definitions: "3 fields expected, got " (the count follows),
  "empty identifier", "duplicate identifier", "invalid identifier format", "empty name",
  "empty value", "negative value", "invalid numeric value", and
  "internal error: the ID could not be converted".
\<close>

definition msg_field_count_prefix :: string where
  "msg_field_count_prefix =
     [CHR 0xD0, CHR 0x9E, CHR 0xD0, CHR 0xB6, CHR 0xD0, CHR 0xB8, CHR 0xD0, CHR 0xB4,
     CHR 0xD0, CHR 0xB0, CHR 0xD0, CHR 0xB5, CHR 0xD1, CHR 0x82, CHR 0xD1, CHR 0x81,
     CHR 0xD1, CHR 0x8F] @ '' 3 '' @ [CHR 0xD0, CHR 0xBF, CHR 0xD0, CHR 0xBE, CHR 0xD0,
     CHR 0xBB, CHR 0xD1, CHR 0x8F] @ '', '' @ [CHR 0xD0, CHR 0xBF, CHR 0xD0, CHR 0xBE,
     CHR 0xD0, CHR 0xBB, CHR 0xD1, CHR 0x83, CHR 0xD1, CHR 0x87, CHR 0xD0, CHR 0xB5,
     CHR 0xD0, CHR 0xBD, CHR 0xD0, CHR 0xBE] @ '' ''"

definition msg_empty_id :: string where
  "msg_empty_id =
     [CHR 0xD0, CHR 0x9F, CHR 0xD1, CHR 0x83, CHR 0xD1, CHR 0x81, CHR 0xD1, CHR 0x82,
     CHR 0xD0, CHR 0xBE, CHR 0xD0, CHR 0xB9] @ '' '' @ [CHR 0xD0, CHR 0xB8, CHR 0xD0,
     CHR 0xB4, CHR 0xD0, CHR 0xB5, CHR 0xD0, CHR 0xBD, CHR 0xD1, CHR 0x82, CHR 0xD0,
     CHR 0xB8, CHR 0xD1, CHR 0x84, CHR 0xD0, CHR 0xB8, CHR 0xD0, CHR 0xBA, CHR 0xD0,
     CHR 0xB0, CHR 0xD1, CHR 0x82, CHR 0xD0, CHR 0xBE, CHR 0xD1, CHR 0x80]"

definition msg_duplicate_id :: string where
  "msg_duplicate_id =
     [CHR 0xD0, CHR 0x94, CHR 0xD1, CHR 0x83, CHR 0xD0, CHR 0xB1, CHR 0xD0, CHR 0xBB,
     CHR 0xD0, CHR 0xB8, CHR 0xD1, CHR 0x80, CHR 0xD1, CHR 0x83, CHR 0xD1, CHR 0x8E,
     CHR 0xD1, CHR 0x89, CHR 0xD0, CHR 0xB8, CHR 0xD0, CHR 0xB9, CHR 0xD1, CHR 0x81,
     CHR 0xD1, CHR 0x8F] @ '' '' @ [CHR 0xD0, CHR 0xB8, CHR 0xD0, CHR 0xB4, CHR 0xD0,
     CHR 0xB5, CHR 0xD0, CHR 0xBD, CHR 0xD1, CHR 0x82, CHR 0xD0, CHR 0xB8, CHR 0xD1,
     CHR 0x84, CHR 0xD0, CHR 0xB8, CHR 0xD0, CHR 0xBA, CHR 0xD0, CHR 0xB0, CHR 0xD1,
     CHR 0x82, CHR 0xD0, CHR 0xBE, CHR 0xD1, CHR 0x80]"

definition msg_bad_id_format :: string where
  "msg_bad_id_format =
     [CHR 0xD0, CHR 0x9D, CHR 0xD0, CHR 0xB5, CHR 0xD0, CHR 0xBA, CHR 0xD0, CHR 0xBE,
     CHR 0xD1, CHR 0x80, CHR 0xD1, CHR 0x80, CHR 0xD0, CHR 0xB5, CHR 0xD0, CHR 0xBA,
     CHR 0xD1, CHR 0x82, CHR 0xD0, CHR 0xBD, CHR 0xD1, CHR 0x8B, CHR 0xD0, CHR 0xB9] @
     '' '' @ [CHR 0xD1, CHR 0x84, CHR 0xD0, CHR 0xBE, CHR 0xD1, CHR 0x80, CHR 0xD0,
     CHR 0xBC, CHR 0xD0, CHR 0xB0, CHR 0xD1, CHR 0x82] @ '' '' @ [CHR 0xD0, CHR 0xB8,
     CHR 0xD0, CHR 0xB4, CHR 0xD0, CHR 0xB5, CHR 0xD0, CHR 0xBD, CHR 0xD1, CHR 0x82,
     CHR 0xD0, CHR 0xB8, CHR 0xD1, CHR 0x84, CHR 0xD0, CHR 0xB8, CHR 0xD0, CHR 0xBA,
     CHR 0xD0, CHR 0xB0, CHR 0xD1, CHR 0x82, CHR 0xD0, CHR 0xBE, CHR 0xD1, CHR 0x80,
     CHR 0xD0, CHR 0xB0]"

definition msg_empty_name :: string where
  "msg_empty_name =
     [CHR 0xD0, CHR 0x9F, CHR 0xD1, CHR 0x83, CHR 0xD1, CHR 0x81, CHR 0xD1, CHR 0x82,
     CHR 0xD0, CHR 0xBE, CHR 0xD0, CHR 0xB5] @ '' '' @ [CHR 0xD0, CHR 0xBD, CHR 0xD0,
     CHR 0xB0, CHR 0xD0, CHR 0xB7, CHR 0xD0, CHR 0xB2, CHR 0xD0, CHR 0xB0, CHR 0xD0,
     CHR 0xBD, CHR 0xD0, CHR 0xB8, CHR 0xD0, CHR 0xB5]"

definition msg_empty_value :: string where
  "msg_empty_value =
     [CHR 0xD0, CHR 0x9F, CHR 0xD1, CHR 0x83, CHR 0xD1, CHR 0x81, CHR 0xD1, CHR 0x82,
     CHR 0xD0, CHR 0xBE, CHR 0xD0, CHR 0xB5] @ '' '' @ [CHR 0xD0, CHR 0xB7, CHR 0xD0,
     CHR 0xBD, CHR 0xD0, CHR 0xB0, CHR 0xD1, CHR 0x87, CHR 0xD0, CHR 0xB5, CHR 0xD0,
     CHR 0xBD, CHR 0xD0, CHR 0xB8, CHR 0xD0, CHR 0xB5]"

definition msg_negative_value :: string where
  "msg_negative_value =
     [CHR 0xD0, CHR 0x9E, CHR 0xD1, CHR 0x82, CHR 0xD1, CHR 0x80, CHR 0xD0, CHR 0xB8,
     CHR 0xD1, CHR 0x86, CHR 0xD0, CHR 0xB0, CHR 0xD1, CHR 0x82, CHR 0xD0, CHR 0xB5,
     CHR 0xD0, CHR 0xBB, CHR 0xD1, CHR 0x8C, CHR 0xD0, CHR 0xBD, CHR 0xD0, CHR 0xBE,
     CHR 0xD0, CHR 0xB5] @ '' '' @ [CHR 0xD0, CHR 0xB7, CHR 0xD0, CHR 0xBD, CHR 0xD0,
     CHR 0xB0, CHR 0xD1, CHR 0x87, CHR 0xD0, CHR 0xB5, CHR 0xD0, CHR 0xBD, CHR 0xD0,
     CHR 0xB8, CHR 0xD0, CHR 0xB5]"

definition msg_bad_value :: string where
  "msg_bad_value =
     [CHR 0xD0, CHR 0x9D, CHR 0xD0, CHR 0xB5, CHR 0xD0, CHR 0xBA, CHR 0xD0, CHR 0xBE,
     CHR 0xD1, CHR 0x80, CHR 0xD1, CHR 0x80, CHR 0xD0, CHR 0xB5, CHR 0xD0, CHR 0xBA,
     CHR 0xD1, CHR 0x82, CHR 0xD0, CHR 0xBD, CHR 0xD0, CHR 0xBE, CHR 0xD0, CHR 0xB5] @
     '' '' @ [CHR 0xD1, CHR 0x87, CHR 0xD0, CHR 0xB8, CHR 0xD1, CHR 0x81, CHR 0xD0,
     CHR 0xBB, CHR 0xD0, CHR 0xBE, CHR 0xD0, CHR 0xB2, CHR 0xD0, CHR 0xBE, CHR 0xD0,
     CHR 0xB5] @ '' '' @ [CHR 0xD0, CHR 0xB7, CHR 0xD0, CHR 0xBD, CHR 0xD0, CHR 0xB0,
     CHR 0xD1, CHR 0x87, CHR 0xD0, CHR 0xB5, CHR 0xD0, CHR 0xBD, CHR 0xD0, CHR 0xB8,
     CHR 0xD0, CHR 0xB5]"

definition msg_internal_id :: string where
  "msg_internal_id =
     [CHR 0xD0, CHR 0x92, CHR 0xD0, CHR 0xBD, CHR 0xD1, CHR 0x83, CHR 0xD1, CHR 0x82,
     CHR 0xD1, CHR 0x80, CHR 0xD0, CHR 0xB5, CHR 0xD0, CHR 0xBD, CHR 0xD0, CHR 0xBD,
     CHR 0xD1, CHR 0x8F, CHR 0xD1, CHR 0x8F] @ '' '' @ [CHR 0xD0, CHR 0xBE, CHR 0xD1,
     CHR 0x88, CHR 0xD0, CHR 0xB8, CHR 0xD0, CHR 0xB1, CHR 0xD0, CHR 0xBA, CHR 0xD0,
     CHR 0xB0] @ '': '' @ [CHR 0xD0, CHR 0xBD, CHR 0xD0, CHR 0xB5] @ '' '' @ [CHR 0xD1,
     CHR 0x83, CHR 0xD0, CHR 0xB4, CHR 0xD0, CHR 0xB0, CHR 0xD0, CHR 0xBB, CHR 0xD0,
     CHR 0xBE, CHR 0xD1, CHR 0x81, CHR 0xD1, CHR 0x8C] @ '' '' @ [CHR 0xD0, CHR 0xBF,
     CHR 0xD1, CHR 0x80, CHR 0xD0, CHR 0xB5, CHR 0xD0, CHR 0xBE, CHR 0xD0, CHR 0xB1,
     CHR 0xD1, CHR 0x80, CHR 0xD0, CHR 0xB0, CHR 0xD0, CHR 0xB7, CHR 0xD0, CHR 0xBE,
     CHR 0xD0, CHR 0xB2, CHR 0xD0, CHR 0xB0, CHR 0xD1, CHR 0x82, CHR 0xD1, CHR 0x8C] @
     '' ID''"


subsection \<open>\<open>str(n)\<close> for an integer\<close>

function show_nat :: "nat \<Rightarrow> string" where
  "show_nat n = (if n < 10 then [digit_char n] else show_nat (n div 10) @ [digit_char (n mod 10)])"
  by pat_completeness auto
termination
  by (relation "measure id") auto

declare show_nat.simps [simp del]

definition show_int :: "int \<Rightarrow> string" where
  "show_int i = (if i < 0 then CHR ''-'' # show_nat (nat (- i)) else show_nat (nat i))"

subsection \<open>\<open>validate_record\<close>\<close>

text \<open>
  The three blocks of checks of \<open>validate_record\<close>, one function for each of the lists
  \<open>id_errors\<close>, \<open>name_errors\<close> and \<open>value_errors\<close> it builds.
\<close>

definition id_errors :: "string \<Rightarrow> int set \<Rightarrow> string list" where
  "id_errors id_str seen_ids =
     (if py_strip id_str = [] then [msg_empty_id]
      else
        (case py_int id_str of
           Some id_num \<Rightarrow> if id_num \<in> seen_ids then [msg_duplicate_id] else []
         | None \<Rightarrow> [msg_bad_id_format]))"

definition name_errors :: "string \<Rightarrow> string list" where
  "name_errors name = (if py_strip name = [] then [msg_empty_name] else [])"

definition value_errors :: "string \<Rightarrow> string list" where
  "value_errors value_str =
     (if py_strip value_str = [] then [msg_empty_value]
      else
        (case py_float value_str of
           Some v \<Rightarrow> if flt_less v (float_of_int 0) then [msg_negative_value] else []
         | None \<Rightarrow> [msg_bad_value]))"

text \<open>
  The call returns its outcome, an exception or the pair \<open>(is_valid, errors)\<close>, together
  with the set \<open>seen_ids\<close> as the call leaves it.  \<open>validate_parts\<close> is the body of
  \<open>validate_record\<close> from line 9 on, after the line has been split into \<open>parts\<close>; the
  only exception is the one of \<open>split\<close> for an empty delimiter.
\<close>

definition validate_parts ::
    "string list \<Rightarrow> int set \<Rightarrow> (py_exception + bool \<times> string list) \<times> int set" where
  "validate_parts parts seen_ids =
     (if length parts \<noteq> 3
      then (Inr (False, [msg_field_count_prefix @ show_nat (length parts)]), seen_ids)
      else
        (let id_str = parts ! 0; name = parts ! 1; value_str = parts ! 2;
             all_errors =
               map (\<lambda>error. ''ID: '' @ error) (id_errors id_str seen_ids) @
               map (\<lambda>error. ''Name: '' @ error) (name_errors name) @
               map (\<lambda>error. ''Value: '' @ error) (value_errors value_str)
         in if all_errors \<noteq> [] then (Inr (False, all_errors), seen_ids)
            else
              (case py_int id_str of
                 None \<Rightarrow> (Inr (False, [msg_internal_id]), seen_ids)
               | Some id_num \<Rightarrow> (Inr (True, []), insert id_num seen_ids))))"

definition validate_record ::
    "string \<Rightarrow> string \<Rightarrow> int set \<Rightarrow> (py_exception + bool \<times> string list) \<times> int set" where
  "validate_record line delimiter seen_ids =
     (case py_split (py_strip line) delimiter of
        Inl e \<Rightarrow> (Inl e, seen_ids)
      | Inr parts \<Rightarrow> validate_parts parts seen_ids)"

section \<open>The file processor\<close>

subsection \<open>Float arithmetic of the aggregates\<close>

fun flt_add :: "pyfloat \<Rightarrow> pyfloat \<Rightarrow> pyfloat" where
  "flt_add FNaN b = FNaN"
| "flt_add a FNaN = FNaN"
| "flt_add (FInf na) (FInf nb) = (if na = nb then FInf na else FNaN)"
| "flt_add (FInf na) (FFinite nb mb) = FInf na"
| "flt_add (FFinite na ma) (FInf nb) = FInf nb"
| "flt_add (FFinite na ma) (FFinite nb mb) =
     (let r = signed_value na ma + signed_value nb mb
      in if r = 0 then FFinite (na \<and> nb) 0 else round64 (r < 0) \<bar>r\<bar>)"

text \<open>
  Division by a divisor that is not zero; the program divides by the length of a
  non-empty list only.
\<close>

fun flt_div :: "pyfloat \<Rightarrow> pyfloat \<Rightarrow> pyfloat" where
  "flt_div FNaN b = FNaN"
| "flt_div a FNaN = FNaN"
| "flt_div (FInf na) (FInf nb) = FNaN"
| "flt_div (FInf na) (FFinite nb mb) = FInf (na \<noteq> nb)"
| "flt_div (FFinite na ma) (FInf nb) = FFinite (na \<noteq> nb) 0"
| "flt_div (FFinite na ma) (FFinite nb mb) = round64 (na \<noteq> nb) (ma / mb)"

text \<open>
  \<open>sum(values)\<close> starts from the integer \<open>0\<close> and adds from the left, each addition
  rounded (CPython up to 3.11; later versions carry a compensation term along).
  \<open>max\<close> and \<open>min\<close> keep the first element and replace it by a later one that
  compares greater, respectively less.
\<close>

definition py_sum :: "pyfloat list \<Rightarrow> pyfloat" where
  "py_sum vs = foldl flt_add (float_of_int 0) vs"

definition py_max :: "pyfloat \<Rightarrow> pyfloat list \<Rightarrow> pyfloat" where
  "py_max v vs = foldl (\<lambda>m x. if flt_less m x then x else m) v vs"

definition py_min :: "pyfloat \<Rightarrow> pyfloat list \<Rightarrow> pyfloat" where
  "py_min v vs = foldl (\<lambda>m x. if flt_less x m then x else m) v vs"

subsection \<open>Formatting\<close>

text \<open>The number of code points of a text: its bytes that are not continuation bytes.\<close>

definition is_continuation :: "char \<Rightarrow> bool" where
  "is_continuation c = (digit7 c \<and> \<not> digit6 c)"

definition py_len :: "string \<Rightarrow> nat" where
  "py_len s = length (filter (\<lambda>c. \<not> is_continuation c) s)"

definition ljust :: "nat \<Rightarrow> string \<Rightarrow> string" where
  "ljust w s = s @ replicate (w - py_len s) CHR '' ''"

definition rjust :: "nat \<Rightarrow> string \<Rightarrow> string" where
  "rjust w s = replicate (w - py_len s) CHR '' '' @ s"

text \<open>The format \<open>.2f\<close>: two decimals, the exact value rounded to nearest, ties to even.\<close>

definition format_2f :: "pyfloat \<Rightarrow> string" where
  "format_2f v =
     (case v of
        FNaN \<Rightarrow> ''nan''
      | FInf neg \<Rightarrow> (if neg then ''-inf'' else ''inf'')
      | FFinite neg m \<Rightarrow>
          (let r = nat (round_half_even (m * 100))
           in (if neg then ''-'' else []) @ show_nat (r div 100) @ ''.'' @
              [digit_char (r mod 100 div 10), digit_char (r mod 10)]))"

text \<open>
  An aggregate is a float when there are valid records and the integer \<open>0\<close> otherwise;
  \<open>.2f\<close> converts an integer to a float first.
\<close>

datatype pynum = PyInt int | PyFloat pyfloat

definition format_num_2f :: "pynum \<Rightarrow> string" where
  "format_num_2f x = (case x of PyInt i \<Rightarrow> format_2f (float_of_int i) | PyFloat v \<Rightarrow> format_2f v)"

definition py_join :: "string \<Rightarrow> string list \<Rightarrow> string" where
  "py_join sep xs = (case xs of [] \<Rightarrow> [] | y # ys \<Rightarrow> y @ concat (map (\<lambda>z. sep @ z) ys))"

subsection \<open>Messages and report texts\<close>

text \<open>
  In the order of the definitions: "internal processing error"; "Error: file '", "' not
  found."; "Error while reading the file: "; the report's title "DATA PROCESSING REPORT";
  "Total number of records: ", "Valid records: ", "Invalid records: ", "Unique
  identifiers: ", "Total number of errors: "; "Aggregate statistics (over the valid
  records):", "  Identifier range: ", "  Average of value: ", "  Maximum of value: ",
  "  Minimum of value: "; "Full list of errors (by type):"; "Details of the invalid
  records:", "  Line ", "      Error: ", "      Found ", " errors:", "  No invalid records
  found."; "Valid records:", " | Name: ", "  No valid records found."; "Report saved to
  file: ", "Error while saving the report: "; and the seven lines of the usage message,
  the last five of which describe the format of the data (three fields \<open>id,name,value\<close>:
  a unique integer identifier, a non-empty name, a non-negative number) and say that all
  errors of a line are found.
\<close>

definition msg_internal_processing :: string where
  "msg_internal_processing =
     [CHR 0xD0, CHR 0x92, CHR 0xD0, CHR 0xBD, CHR 0xD1, CHR 0x83, CHR 0xD1, CHR 0x82,
     CHR 0xD1, CHR 0x80, CHR 0xD0, CHR 0xB5, CHR 0xD0, CHR 0xBD, CHR 0xD0, CHR 0xBD,
     CHR 0xD1, CHR 0x8F, CHR 0xD1, CHR 0x8F] @ '' '' @ [CHR 0xD0, CHR 0xBE, CHR 0xD1,
     CHR 0x88, CHR 0xD0, CHR 0xB8, CHR 0xD0, CHR 0xB1, CHR 0xD0, CHR 0xBA, CHR 0xD0,
     CHR 0xB0] @ '' '' @ [CHR 0xD0, CHR 0xBE, CHR 0xD0, CHR 0xB1, CHR 0xD1, CHR 0x80,
     CHR 0xD0, CHR 0xB0, CHR 0xD0, CHR 0xB1, CHR 0xD0, CHR 0xBE, CHR 0xD1, CHR 0x82,
     CHR 0xD0, CHR 0xBA, CHR 0xD0, CHR 0xB8]"

definition msg_file_not_found_prefix :: string where
  "msg_file_not_found_prefix =
     [CHR 0xD0, CHR 0x9E, CHR 0xD1, CHR 0x88, CHR 0xD0, CHR 0xB8, CHR 0xD0, CHR 0xB1,
     CHR 0xD0, CHR 0xBA, CHR 0xD0, CHR 0xB0] @ '': '' @ [CHR 0xD1, CHR 0x84, CHR 0xD0,
     CHR 0xB0, CHR 0xD0, CHR 0xB9, CHR 0xD0, CHR 0xBB] @ '' '' @ [CHR 0x27]"

definition msg_file_not_found_suffix :: string where
  "msg_file_not_found_suffix =
     [CHR 0x27] @ '' '' @ [CHR 0xD0, CHR 0xBD, CHR 0xD0, CHR 0xB5] @ '' '' @ [CHR 0xD0,
     CHR 0xBD, CHR 0xD0, CHR 0xB0, CHR 0xD0, CHR 0xB9, CHR 0xD0, CHR 0xB4, CHR 0xD0,
     CHR 0xB5, CHR 0xD0, CHR 0xBD] @ ''.''"

definition msg_read_error_prefix :: string where
  "msg_read_error_prefix =
     [CHR 0xD0, CHR 0x9E, CHR 0xD1, CHR 0x88, CHR 0xD0, CHR 0xB8, CHR 0xD0, CHR 0xB1,
     CHR 0xD0, CHR 0xBA, CHR 0xD0, CHR 0xB0] @ '' '' @ [CHR 0xD0, CHR 0xBF, CHR 0xD1,
     CHR 0x80, CHR 0xD0, CHR 0xB8] @ '' '' @ [CHR 0xD1, CHR 0x87, CHR 0xD1, CHR 0x82,
     CHR 0xD0, CHR 0xB5, CHR 0xD0, CHR 0xBD, CHR 0xD0, CHR 0xB8, CHR 0xD0, CHR 0xB8] @
     '' '' @ [CHR 0xD1, CHR 0x84, CHR 0xD0, CHR 0xB0, CHR 0xD0, CHR 0xB9, CHR 0xD0,
     CHR 0xBB, CHR 0xD0, CHR 0xB0] @ '': ''"

definition txt_title :: string where
  "txt_title =
     [CHR 0xD0, CHR 0x9E, CHR 0xD0, CHR 0xA2, CHR 0xD0, CHR 0xA7, CHR 0xD0, CHR 0x81,
     CHR 0xD0, CHR 0xA2] @ '' '' @ [CHR 0xD0, CHR 0x9E, CHR 0xD0, CHR 0x91] @ '' '' @
     [CHR 0xD0, CHR 0x9E, CHR 0xD0, CHR 0x91, CHR 0xD0, CHR 0xA0, CHR 0xD0, CHR 0x90,
     CHR 0xD0, CHR 0x91, CHR 0xD0, CHR 0x9E, CHR 0xD0, CHR 0xA2, CHR 0xD0, CHR 0x9A,
     CHR 0xD0, CHR 0x95] @ '' '' @ [CHR 0xD0, CHR 0x94, CHR 0xD0, CHR 0x90, CHR 0xD0,
     CHR 0x9D, CHR 0xD0, CHR 0x9D, CHR 0xD0, CHR 0xAB, CHR 0xD0, CHR 0xA5]"

definition txt_total :: string where
  "txt_total =
     [CHR 0xD0, CHR 0x9E, CHR 0xD0, CHR 0xB1, CHR 0xD1, CHR 0x89, CHR 0xD0, CHR 0xB5,
     CHR 0xD0, CHR 0xB5] @ '' '' @ [CHR 0xD0, CHR 0xBA, CHR 0xD0, CHR 0xBE, CHR 0xD0,
     CHR 0xBB, CHR 0xD0, CHR 0xB8, CHR 0xD1, CHR 0x87, CHR 0xD0, CHR 0xB5, CHR 0xD1,
     CHR 0x81, CHR 0xD1, CHR 0x82, CHR 0xD0, CHR 0xB2, CHR 0xD0, CHR 0xBE] @ '' '' @
     [CHR 0xD0, CHR 0xB7, CHR 0xD0, CHR 0xB0, CHR 0xD0, CHR 0xBF, CHR 0xD0, CHR 0xB8,
     CHR 0xD1, CHR 0x81, CHR 0xD0, CHR 0xB5, CHR 0xD0, CHR 0xB9] @ '': ''"

definition txt_valid_count :: string where
  "txt_valid_count =
     [CHR 0xD0, CHR 0x9A, CHR 0xD0, CHR 0xBE, CHR 0xD1, CHR 0x80, CHR 0xD1, CHR 0x80,
     CHR 0xD0, CHR 0xB5, CHR 0xD0, CHR 0xBA, CHR 0xD1, CHR 0x82, CHR 0xD0, CHR 0xBD,
     CHR 0xD1, CHR 0x8B, CHR 0xD1, CHR 0x85] @ '' '' @ [CHR 0xD0, CHR 0xB7, CHR 0xD0,
     CHR 0xB0, CHR 0xD0, CHR 0xBF, CHR 0xD0, CHR 0xB8, CHR 0xD1, CHR 0x81, CHR 0xD0,
     CHR 0xB5, CHR 0xD0, CHR 0xB9] @ '': ''"

definition txt_invalid_count :: string where
  "txt_invalid_count =
     [CHR 0xD0, CHR 0x9D, CHR 0xD0, CHR 0xB5, CHR 0xD0, CHR 0xBA, CHR 0xD0, CHR 0xBE,
     CHR 0xD1, CHR 0x80, CHR 0xD1, CHR 0x80, CHR 0xD0, CHR 0xB5, CHR 0xD0, CHR 0xBA,
     CHR 0xD1, CHR 0x82, CHR 0xD0, CHR 0xBD, CHR 0xD1, CHR 0x8B, CHR 0xD1, CHR 0x85] @
     '' '' @ [CHR 0xD0, CHR 0xB7, CHR 0xD0, CHR 0xB0, CHR 0xD0, CHR 0xBF, CHR 0xD0,
     CHR 0xB8, CHR 0xD1, CHR 0x81, CHR 0xD0, CHR 0xB5, CHR 0xD0, CHR 0xB9] @ '': ''"

definition txt_unique_ids :: string where
  "txt_unique_ids =
     [CHR 0xD0, CHR 0xA3, CHR 0xD0, CHR 0xBD, CHR 0xD0, CHR 0xB8, CHR 0xD0, CHR 0xBA,
     CHR 0xD0, CHR 0xB0, CHR 0xD0, CHR 0xBB, CHR 0xD1, CHR 0x8C, CHR 0xD0, CHR 0xBD,
     CHR 0xD1, CHR 0x8B, CHR 0xD1, CHR 0x85] @ '' '' @ [CHR 0xD0, CHR 0xB8, CHR 0xD0,
     CHR 0xB4, CHR 0xD0, CHR 0xB5, CHR 0xD0, CHR 0xBD, CHR 0xD1, CHR 0x82, CHR 0xD0,
     CHR 0xB8, CHR 0xD1, CHR 0x84, CHR 0xD0, CHR 0xB8, CHR 0xD0, CHR 0xBA, CHR 0xD0,
     CHR 0xB0, CHR 0xD1, CHR 0x82, CHR 0xD0, CHR 0xBE, CHR 0xD1, CHR 0x80, CHR 0xD0,
     CHR 0xBE, CHR 0xD0, CHR 0xB2] @ '': ''"

definition txt_error_total :: string where
  "txt_error_total =
     [CHR 0xD0, CHR 0x9E, CHR 0xD0, CHR 0xB1, CHR 0xD1, CHR 0x89, CHR 0xD0, CHR 0xB5,
     CHR 0xD0, CHR 0xB5] @ '' '' @ [CHR 0xD0, CHR 0xBA, CHR 0xD0, CHR 0xBE, CHR 0xD0,
     CHR 0xBB, CHR 0xD0, CHR 0xB8, CHR 0xD1, CHR 0x87, CHR 0xD0, CHR 0xB5, CHR 0xD1,
     CHR 0x81, CHR 0xD1, CHR 0x82, CHR 0xD0, CHR 0xB2, CHR 0xD0, CHR 0xBE] @ '' '' @
     [CHR 0xD0, CHR 0xBE, CHR 0xD1, CHR 0x88, CHR 0xD0, CHR 0xB8, CHR 0xD0, CHR 0xB1,
     CHR 0xD0, CHR 0xBE, CHR 0xD0, CHR 0xBA] @ '': ''"

definition txt_stats_header :: string where
  "txt_stats_header =
     [CHR 0x0A, CHR 0xD0, CHR 0x90, CHR 0xD0, CHR 0xB3, CHR 0xD1, CHR 0x80, CHR 0xD0,
     CHR 0xB5, CHR 0xD0, CHR 0xB3, CHR 0xD0, CHR 0xB8, CHR 0xD1, CHR 0x80, CHR 0xD0,
     CHR 0xBE, CHR 0xD0, CHR 0xB2, CHR 0xD0, CHR 0xB0, CHR 0xD0, CHR 0xBD, CHR 0xD0,
     CHR 0xBD, CHR 0xD0, CHR 0xB0, CHR 0xD1, CHR 0x8F] @ '' '' @ [CHR 0xD1, CHR 0x81,
     CHR 0xD1, CHR 0x82, CHR 0xD0, CHR 0xB0, CHR 0xD1, CHR 0x82, CHR 0xD0, CHR 0xB8,
     CHR 0xD1, CHR 0x81, CHR 0xD1, CHR 0x82, CHR 0xD0, CHR 0xB8, CHR 0xD0, CHR 0xBA,
     CHR 0xD0, CHR 0xB0] @ '' ('' @ [CHR 0xD0, CHR 0xBF, CHR 0xD0, CHR 0xBE] @ '' '' @
     [CHR 0xD0, CHR 0xBA, CHR 0xD0, CHR 0xBE, CHR 0xD1, CHR 0x80, CHR 0xD1, CHR 0x80,
     CHR 0xD0, CHR 0xB5, CHR 0xD0, CHR 0xBA, CHR 0xD1, CHR 0x82, CHR 0xD0, CHR 0xBD,
     CHR 0xD1, CHR 0x8B, CHR 0xD0, CHR 0xBC] @ '' '' @ [CHR 0xD0, CHR 0xB7, CHR 0xD0,
     CHR 0xB0, CHR 0xD0, CHR 0xBF, CHR 0xD0, CHR 0xB8, CHR 0xD1, CHR 0x81, CHR 0xD1,
     CHR 0x8F, CHR 0xD0, CHR 0xBC] @ ''):''"

definition txt_id_range :: string where
  "txt_id_range =
     ''  '' @ [CHR 0xD0, CHR 0x94, CHR 0xD0, CHR 0xB8, CHR 0xD0, CHR 0xB0, CHR 0xD0,
     CHR 0xBF, CHR 0xD0, CHR 0xB0, CHR 0xD0, CHR 0xB7, CHR 0xD0, CHR 0xBE, CHR 0xD0,
     CHR 0xBD] @ '' '' @ [CHR 0xD0, CHR 0xB8, CHR 0xD0, CHR 0xB4, CHR 0xD0, CHR 0xB5,
     CHR 0xD0, CHR 0xBD, CHR 0xD1, CHR 0x82, CHR 0xD0, CHR 0xB8, CHR 0xD1, CHR 0x84,
     CHR 0xD0, CHR 0xB8, CHR 0xD0, CHR 0xBA, CHR 0xD0, CHR 0xB0, CHR 0xD1, CHR 0x82,
     CHR 0xD0, CHR 0xBE, CHR 0xD1, CHR 0x80, CHR 0xD0, CHR 0xBE, CHR 0xD0, CHR 0xB2] @
     '': ''"

definition txt_avg :: string where
  "txt_avg =
     ''  '' @ [CHR 0xD0, CHR 0xA1, CHR 0xD1, CHR 0x80, CHR 0xD0, CHR 0xB5, CHR 0xD0,
     CHR 0xB4, CHR 0xD0, CHR 0xBD, CHR 0xD0, CHR 0xB5, CHR 0xD0, CHR 0xB5] @ '' '' @
     [CHR 0xD0, CHR 0xB7, CHR 0xD0, CHR 0xBD, CHR 0xD0, CHR 0xB0, CHR 0xD1, CHR 0x87,
     CHR 0xD0, CHR 0xB5, CHR 0xD0, CHR 0xBD, CHR 0xD0, CHR 0xB8, CHR 0xD0, CHR 0xB5] @
     '' value: ''"

definition txt_max :: string where
  "txt_max =
     ''  '' @ [CHR 0xD0, CHR 0x9C, CHR 0xD0, CHR 0xB0, CHR 0xD0, CHR 0xBA, CHR 0xD1,
     CHR 0x81, CHR 0xD0, CHR 0xB8, CHR 0xD0, CHR 0xBC, CHR 0xD0, CHR 0xB0, CHR 0xD0,
     CHR 0xBB, CHR 0xD1, CHR 0x8C, CHR 0xD0, CHR 0xBD, CHR 0xD0, CHR 0xBE, CHR 0xD0,
     CHR 0xB5] @ '' '' @ [CHR 0xD0, CHR 0xB7, CHR 0xD0, CHR 0xBD, CHR 0xD0, CHR 0xB0,
     CHR 0xD1, CHR 0x87, CHR 0xD0, CHR 0xB5, CHR 0xD0, CHR 0xBD, CHR 0xD0, CHR 0xB8,
     CHR 0xD0, CHR 0xB5] @ '' value: ''"

definition txt_min :: string where
  "txt_min =
     ''  '' @ [CHR 0xD0, CHR 0x9C, CHR 0xD0, CHR 0xB8, CHR 0xD0, CHR 0xBD, CHR 0xD0,
     CHR 0xB8, CHR 0xD0, CHR 0xBC, CHR 0xD0, CHR 0xB0, CHR 0xD0, CHR 0xBB, CHR 0xD1,
     CHR 0x8C, CHR 0xD0, CHR 0xBD, CHR 0xD0, CHR 0xBE, CHR 0xD0, CHR 0xB5] @ '' '' @
     [CHR 0xD0, CHR 0xB7, CHR 0xD0, CHR 0xBD, CHR 0xD0, CHR 0xB0, CHR 0xD1, CHR 0x87,
     CHR 0xD0, CHR 0xB5, CHR 0xD0, CHR 0xBD, CHR 0xD0, CHR 0xB8, CHR 0xD0, CHR 0xB5] @
     '' value: ''"

definition txt_tally_header :: string where
  "txt_tally_header =
     [CHR 0x0A, CHR 0xD0, CHR 0x9F, CHR 0xD0, CHR 0xBE, CHR 0xD0, CHR 0xBB, CHR 0xD0,
     CHR 0xBD, CHR 0xD1, CHR 0x8B, CHR 0xD0, CHR 0xB9] @ '' '' @ [CHR 0xD1, CHR 0x81,
     CHR 0xD0, CHR 0xBF, CHR 0xD0, CHR 0xB8, CHR 0xD1, CHR 0x81, CHR 0xD0, CHR 0xBE,
     CHR 0xD0, CHR 0xBA] @ '' '' @ [CHR 0xD0, CHR 0xBE, CHR 0xD1, CHR 0x88, CHR 0xD0,
     CHR 0xB8, CHR 0xD0, CHR 0xB1, CHR 0xD0, CHR 0xBE, CHR 0xD0, CHR 0xBA] @ '' ('' @
     [CHR 0xD0, CHR 0xBF, CHR 0xD0, CHR 0xBE] @ '' '' @ [CHR 0xD1, CHR 0x82, CHR 0xD0,
     CHR 0xB8, CHR 0xD0, CHR 0xBF, CHR 0xD0, CHR 0xB0, CHR 0xD0, CHR 0xBC] @ ''):''"

definition txt_invalid_header :: string where
  "txt_invalid_header =
     [CHR 0x0A, CHR 0xD0, CHR 0x94, CHR 0xD0, CHR 0xB5, CHR 0xD1, CHR 0x82, CHR 0xD0,
     CHR 0xB0, CHR 0xD0, CHR 0xBB, CHR 0xD0, CHR 0xB8, CHR 0xD0, CHR 0xB7, CHR 0xD0,
     CHR 0xB0, CHR 0xD1, CHR 0x86, CHR 0xD0, CHR 0xB8, CHR 0xD1, CHR 0x8F] @ '' '' @
     [CHR 0xD0, CHR 0xBD, CHR 0xD0, CHR 0xB5, CHR 0xD0, CHR 0xBA, CHR 0xD0, CHR 0xBE,
     CHR 0xD1, CHR 0x80, CHR 0xD1, CHR 0x80, CHR 0xD0, CHR 0xB5, CHR 0xD0, CHR 0xBA,
     CHR 0xD1, CHR 0x82, CHR 0xD0, CHR 0xBD, CHR 0xD1, CHR 0x8B, CHR 0xD1, CHR 0x85] @
     '' '' @ [CHR 0xD0, CHR 0xB7, CHR 0xD0, CHR 0xB0, CHR 0xD0, CHR 0xBF, CHR 0xD0,
     CHR 0xB8, CHR 0xD1, CHR 0x81, CHR 0xD0, CHR 0xB5, CHR 0xD0, CHR 0xB9] @ '':''"

definition txt_line :: string where
  "txt_line =
     ''  '' @ [CHR 0xD0, CHR 0xA1, CHR 0xD1, CHR 0x82, CHR 0xD1, CHR 0x80, CHR 0xD0,
     CHR 0xBE, CHR 0xD0, CHR 0xBA, CHR 0xD0, CHR 0xB0] @ '' ''"

definition txt_one_error :: string where
  "txt_one_error =
     ''      '' @ [CHR 0xD0, CHR 0x9E, CHR 0xD1, CHR 0x88, CHR 0xD0, CHR 0xB8, CHR 0xD0,
     CHR 0xB1, CHR 0xD0, CHR 0xBA, CHR 0xD0, CHR 0xB0] @ '': ''"

definition txt_found :: string where
  "txt_found =
     ''      '' @ [CHR 0xD0, CHR 0x9E, CHR 0xD0, CHR 0xB1, CHR 0xD0, CHR 0xBD, CHR 0xD0,
     CHR 0xB0, CHR 0xD1, CHR 0x80, CHR 0xD1, CHR 0x83, CHR 0xD0, CHR 0xB6, CHR 0xD0,
     CHR 0xB5, CHR 0xD0, CHR 0xBD, CHR 0xD0, CHR 0xBE] @ '' ''"

definition txt_errors_suffix :: string where
  "txt_errors_suffix =
     '' '' @ [CHR 0xD0, CHR 0xBE, CHR 0xD1, CHR 0x88, CHR 0xD0, CHR 0xB8, CHR 0xD0,
     CHR 0xB1, CHR 0xD0, CHR 0xBE, CHR 0xD0, CHR 0xBA] @ '':''"

definition txt_no_invalid :: string where
  "txt_no_invalid =
     ''  '' @ [CHR 0xD0, CHR 0x9D, CHR 0xD0, CHR 0xB5, CHR 0xD0, CHR 0xBA, CHR 0xD0,
     CHR 0xBE, CHR 0xD1, CHR 0x80, CHR 0xD1, CHR 0x80, CHR 0xD0, CHR 0xB5, CHR 0xD0,
     CHR 0xBA, CHR 0xD1, CHR 0x82, CHR 0xD0, CHR 0xBD, CHR 0xD1, CHR 0x8B, CHR 0xD1,
     CHR 0x85] @ '' '' @ [CHR 0xD0, CHR 0xB7, CHR 0xD0, CHR 0xB0, CHR 0xD0, CHR 0xBF,
     CHR 0xD0, CHR 0xB8, CHR 0xD1, CHR 0x81, CHR 0xD0, CHR 0xB5, CHR 0xD0, CHR 0xB9] @
     '' '' @ [CHR 0xD0, CHR 0xBD, CHR 0xD0, CHR 0xB5] @ '' '' @ [CHR 0xD0, CHR 0xBD,
     CHR 0xD0, CHR 0xB0, CHR 0xD0, CHR 0xB9, CHR 0xD0, CHR 0xB4, CHR 0xD0, CHR 0xB5,
     CHR 0xD0, CHR 0xBD, CHR 0xD0, CHR 0xBE] @ ''.''"

definition txt_valid_header :: string where
  "txt_valid_header =
     [CHR 0x0A, CHR 0xD0, CHR 0x9A, CHR 0xD0, CHR 0xBE, CHR 0xD1, CHR 0x80, CHR 0xD1,
     CHR 0x80, CHR 0xD0, CHR 0xB5, CHR 0xD0, CHR 0xBA, CHR 0xD1, CHR 0x82, CHR 0xD0,
     CHR 0xBD, CHR 0xD1, CHR 0x8B, CHR 0xD0, CHR 0xB5] @ '' '' @ [CHR 0xD0, CHR 0xB7,
     CHR 0xD0, CHR 0xB0, CHR 0xD0, CHR 0xBF, CHR 0xD0, CHR 0xB8, CHR 0xD1, CHR 0x81,
     CHR 0xD0, CHR 0xB8] @ '':''"

definition txt_name_column :: string where
  "txt_name_column =
     '' | '' @ [CHR 0xD0, CHR 0x9D, CHR 0xD0, CHR 0xB0, CHR 0xD0, CHR 0xB7, CHR 0xD0,
     CHR 0xB2, CHR 0xD0, CHR 0xB0, CHR 0xD0, CHR 0xBD, CHR 0xD0, CHR 0xB8, CHR 0xD0,
     CHR 0xB5] @ '': ''"

definition txt_no_valid :: string where
  "txt_no_valid =
     ''  '' @ [CHR 0xD0, CHR 0x9A, CHR 0xD0, CHR 0xBE, CHR 0xD1, CHR 0x80, CHR 0xD1,
     CHR 0x80, CHR 0xD0, CHR 0xB5, CHR 0xD0, CHR 0xBA, CHR 0xD1, CHR 0x82, CHR 0xD0,
     CHR 0xBD, CHR 0xD1, CHR 0x8B, CHR 0xD1, CHR 0x85] @ '' '' @ [CHR 0xD0, CHR 0xB7,
     CHR 0xD0, CHR 0xB0, CHR 0xD0, CHR 0xBF, CHR 0xD0, CHR 0xB8, CHR 0xD1, CHR 0x81,
     CHR 0xD0, CHR 0xB5, CHR 0xD0, CHR 0xB9] @ '' '' @ [CHR 0xD0, CHR 0xBD, CHR 0xD0,
     CHR 0xB5] @ '' '' @ [CHR 0xD0, CHR 0xBD, CHR 0xD0, CHR 0xB0, CHR 0xD0, CHR 0xB9,
     CHR 0xD0, CHR 0xB4, CHR 0xD0, CHR 0xB5, CHR 0xD0, CHR 0xBD, CHR 0xD0, CHR 0xBE] @
     ''.''"

definition msg_saved_prefix :: string where
  "msg_saved_prefix =
     [CHR 0xD0, CHR 0x9E, CHR 0xD1, CHR 0x82, CHR 0xD1, CHR 0x87, CHR 0xD1, CHR 0x91,
     CHR 0xD1, CHR 0x82] @ '' '' @ [CHR 0xD1, CHR 0x81, CHR 0xD0, CHR 0xBE, CHR 0xD1,
     CHR 0x85, CHR 0xD1, CHR 0x80, CHR 0xD0, CHR 0xB0, CHR 0xD0, CHR 0xBD, CHR 0xD1,
     CHR 0x91, CHR 0xD0, CHR 0xBD] @ '' '' @ [CHR 0xD0, CHR 0xB2] @ '' '' @ [CHR 0xD1,
     CHR 0x84, CHR 0xD0, CHR 0xB0, CHR 0xD0, CHR 0xB9, CHR 0xD0, CHR 0xBB] @ '': ''"

definition msg_save_error_prefix :: string where
  "msg_save_error_prefix =
     [CHR 0xD0, CHR 0x9E, CHR 0xD1, CHR 0x88, CHR 0xD0, CHR 0xB8, CHR 0xD0, CHR 0xB1,
     CHR 0xD0, CHR 0xBA, CHR 0xD0, CHR 0xB0] @ '' '' @ [CHR 0xD0, CHR 0xBF, CHR 0xD1,
     CHR 0x80, CHR 0xD0, CHR 0xB8] @ '' '' @ [CHR 0xD1, CHR 0x81, CHR 0xD0, CHR 0xBE,
     CHR 0xD1, CHR 0x85, CHR 0xD1, CHR 0x80, CHR 0xD0, CHR 0xB0, CHR 0xD0, CHR 0xBD,
     CHR 0xD0, CHR 0xB5, CHR 0xD0, CHR 0xBD, CHR 0xD0, CHR 0xB8, CHR 0xD0, CHR 0xB8] @
     '' '' @ [CHR 0xD0, CHR 0xBE, CHR 0xD1, CHR 0x82, CHR 0xD1, CHR 0x87, CHR 0xD1,
     CHR 0x91, CHR 0xD1, CHR 0x82, CHR 0xD0, CHR 0xB0] @ '': ''"

definition usage_1 :: string where
  "usage_1 =
     [CHR 0xD0, CHR 0x98, CHR 0xD1, CHR 0x81, CHR 0xD0, CHR 0xBF, CHR 0xD0, CHR 0xBE,
     CHR 0xD0, CHR 0xBB, CHR 0xD1, CHR 0x8C, CHR 0xD0, CHR 0xB7, CHR 0xD0, CHR 0xBE,
     CHR 0xD0, CHR 0xB2, CHR 0xD0, CHR 0xB0, CHR 0xD0, CHR 0xBD, CHR 0xD0, CHR 0xB8,
     CHR 0xD0, CHR 0xB5] @
     '': python data_processor.py <input_file> [delimiter] [output_file]''"

definition usage_2 :: string where
  "usage_2 =
     [CHR 0xD0, CHR 0x9F, CHR 0xD1, CHR 0x80, CHR 0xD0, CHR 0xB8, CHR 0xD0, CHR 0xBC,
     CHR 0xD0, CHR 0xB5, CHR 0xD1, CHR 0x80] @ '': python data_processor.py data.txt '' @
     [CHR 0x27] @ '','' @ [CHR 0x27] @ '' report.txt''"

definition usage_3 :: string where
  "usage_3 =
     [CHR 0x0A, CHR 0xD0, CHR 0xA4, CHR 0xD0, CHR 0xBE, CHR 0xD1, CHR 0x80, CHR 0xD0,
     CHR 0xBC, CHR 0xD0, CHR 0xB0, CHR 0xD1, CHR 0x82] @ '' '' @ [CHR 0xD0, CHR 0xB4,
     CHR 0xD0, CHR 0xB0, CHR 0xD0, CHR 0xBD, CHR 0xD0, CHR 0xBD, CHR 0xD1, CHR 0x8B,
     CHR 0xD1, CHR 0x85] @ '' (3 '' @ [CHR 0xD0, CHR 0xBF, CHR 0xD0, CHR 0xBE, CHR 0xD0,
     CHR 0xBB, CHR 0xD1, CHR 0x8F] @ ''): id,name,value''"

definition usage_4 :: string where
  "usage_4 =
     ''  - id: '' @ [CHR 0xD1, CHR 0x83, CHR 0xD0, CHR 0xBD, CHR 0xD0, CHR 0xB8, CHR 0xD0,
     CHR 0xBA, CHR 0xD0, CHR 0xB0, CHR 0xD0, CHR 0xBB, CHR 0xD1, CHR 0x8C, CHR 0xD0,
     CHR 0xBD, CHR 0xD1, CHR 0x8B, CHR 0xD0, CHR 0xB9] @ '' '' @ [CHR 0xD1, CHR 0x86,
     CHR 0xD0, CHR 0xB5, CHR 0xD0, CHR 0xBB, CHR 0xD0, CHR 0xBE, CHR 0xD1, CHR 0x87,
     CHR 0xD0, CHR 0xB8, CHR 0xD1, CHR 0x81, CHR 0xD0, CHR 0xBB, CHR 0xD0, CHR 0xB5,
     CHR 0xD0, CHR 0xBD, CHR 0xD0, CHR 0xBD, CHR 0xD1, CHR 0x8B, CHR 0xD0, CHR 0xB9] @
     '' '' @ [CHR 0xD0, CHR 0xB8, CHR 0xD0, CHR 0xB4, CHR 0xD0, CHR 0xB5, CHR 0xD0,
     CHR 0xBD, CHR 0xD1, CHR 0x82, CHR 0xD0, CHR 0xB8, CHR 0xD1, CHR 0x84, CHR 0xD0,
     CHR 0xB8, CHR 0xD0, CHR 0xBA, CHR 0xD0, CHR 0xB0, CHR 0xD1, CHR 0x82, CHR 0xD0,
     CHR 0xBE, CHR 0xD1, CHR 0x80] @ '' ('' @ [CHR 0xD0, CHR 0xBE, CHR 0xD0, CHR 0xB1,
     CHR 0xD1, CHR 0x8F, CHR 0xD0, CHR 0xB7, CHR 0xD0, CHR 0xB0, CHR 0xD1, CHR 0x82,
     CHR 0xD0, CHR 0xB5, CHR 0xD0, CHR 0xBB, CHR 0xD1, CHR 0x8C, CHR 0xD0, CHR 0xBD,
     CHR 0xD0, CHR 0xBE, CHR 0xD0, CHR 0xB5] @ '' '' @ [CHR 0xD0, CHR 0xBF, CHR 0xD0,
     CHR 0xBE, CHR 0xD0, CHR 0xBB, CHR 0xD0, CHR 0xB5] @ '')''"

definition usage_5 :: string where
  "usage_5 =
     ''  - name: '' @ [CHR 0xD0, CHR 0xBD, CHR 0xD0, CHR 0xB5, CHR 0xD0, CHR 0xBF,
     CHR 0xD1, CHR 0x83, CHR 0xD1, CHR 0x81, CHR 0xD1, CHR 0x82, CHR 0xD0, CHR 0xBE,
     CHR 0xD0, CHR 0xB5] @ '' '' @ [CHR 0xD0, CHR 0xBD, CHR 0xD0, CHR 0xB0, CHR 0xD0,
     CHR 0xB7, CHR 0xD0, CHR 0xB2, CHR 0xD0, CHR 0xB0, CHR 0xD0, CHR 0xBD, CHR 0xD0,
     CHR 0xB8, CHR 0xD0, CHR 0xB5] @ '' ('' @ [CHR 0xD0, CHR 0xBE, CHR 0xD0, CHR 0xB1,
     CHR 0xD1, CHR 0x8F, CHR 0xD0, CHR 0xB7, CHR 0xD0, CHR 0xB0, CHR 0xD1, CHR 0x82,
     CHR 0xD0, CHR 0xB5, CHR 0xD0, CHR 0xBB, CHR 0xD1, CHR 0x8C, CHR 0xD0, CHR 0xBD,
     CHR 0xD0, CHR 0xBE, CHR 0xD0, CHR 0xB5] @ '' '' @ [CHR 0xD0, CHR 0xBF, CHR 0xD0,
     CHR 0xBE, CHR 0xD0, CHR 0xBB, CHR 0xD0, CHR 0xB5] @ '')''"

definition usage_6 :: string where
  "usage_6 =
     ''  - value: '' @ [CHR 0xD0, CHR 0xBD, CHR 0xD0, CHR 0xB5, CHR 0xD0, CHR 0xBE,
     CHR 0xD1, CHR 0x82, CHR 0xD1, CHR 0x80, CHR 0xD0, CHR 0xB8, CHR 0xD1, CHR 0x86,
     CHR 0xD0, CHR 0xB0, CHR 0xD1, CHR 0x82, CHR 0xD0, CHR 0xB5, CHR 0xD0, CHR 0xBB,
     CHR 0xD1, CHR 0x8C, CHR 0xD0, CHR 0xBD, CHR 0xD0, CHR 0xBE, CHR 0xD0, CHR 0xB5] @
     '' '' @ [CHR 0xD1, CHR 0x87, CHR 0xD0, CHR 0xB8, CHR 0xD1, CHR 0x81, CHR 0xD0,
     CHR 0xBB, CHR 0xD0, CHR 0xBE] @ '' ('' @ [CHR 0xD0, CHR 0xBE, CHR 0xD0, CHR 0xB1,
     CHR 0xD1, CHR 0x8F, CHR 0xD0, CHR 0xB7, CHR 0xD0, CHR 0xB0, CHR 0xD1, CHR 0x82,
     CHR 0xD0, CHR 0xB5, CHR 0xD0, CHR 0xBB, CHR 0xD1, CHR 0x8C, CHR 0xD0, CHR 0xBD,
     CHR 0xD0, CHR 0xBE, CHR 0xD0, CHR 0xB5] @ '' '' @ [CHR 0xD0, CHR 0xBF, CHR 0xD0,
     CHR 0xBE, CHR 0xD0, CHR 0xBB, CHR 0xD0, CHR 0xB5] @ '')''"

definition usage_7 :: string where
  "usage_7 =
     [CHR 0x0A, CHR 0xD0, CHR 0x9F, CHR 0xD1, CHR 0x80, CHR 0xD0, CHR 0xBE, CHR 0xD0,
     CHR 0xB3, CHR 0xD1, CHR 0x80, CHR 0xD0, CHR 0xB0, CHR 0xD0, CHR 0xBC, CHR 0xD0,
     CHR 0xBC, CHR 0xD0, CHR 0xB0] @ '' '' @ [CHR 0xD0, CHR 0xBE, CHR 0xD0, CHR 0xB1,
     CHR 0xD0, CHR 0xBD, CHR 0xD0, CHR 0xB0, CHR 0xD1, CHR 0x80, CHR 0xD1, CHR 0x83,
     CHR 0xD0, CHR 0xB6, CHR 0xD0, CHR 0xB8, CHR 0xD0, CHR 0xB2, CHR 0xD0, CHR 0xB0,
     CHR 0xD0, CHR 0xB5, CHR 0xD1, CHR 0x82] @ '' '' @ [CHR 0xD0, CHR 0x92, CHR 0xD0,
     CHR 0xA1, CHR 0xD0, CHR 0x95] @ '' '' @ [CHR 0xD0, CHR 0xBE, CHR 0xD1, CHR 0x88,
     CHR 0xD0, CHR 0xB8, CHR 0xD0, CHR 0xB1, CHR 0xD0, CHR 0xBA, CHR 0xD0, CHR 0xB8] @
     '' '' @ [CHR 0xD0, CHR 0xB2] @ '' '' @ [CHR 0xD0, CHR 0xBA, CHR 0xD0, CHR 0xB0,
     CHR 0xD0, CHR 0xB6, CHR 0xD0, CHR 0xB4, CHR 0xD0, CHR 0xBE, CHR 0xD0, CHR 0xB9] @
     '' '' @ [CHR 0xD1, CHR 0x81, CHR 0xD1, CHR 0x82, CHR 0xD1, CHR 0x80, CHR 0xD0,
     CHR 0xBE, CHR 0xD0, CHR 0xBA, CHR 0xD0, CHR 0xB5] @ ''.''"


definition usage_lines :: "string list" where
  "usage_lines = [usage_1, usage_2, usage_3, usage_4, usage_5, usage_6, usage_7]"

subsection \<open>The scan of the lines\<close>

text \<open>
  A valid record (the dictionary with the keys \<open>id\<close>, \<open>name\<close>, \<open>value\<close>, \<open>original\<close>),
  an invalid record (the triple of line number, stripped line and errors), and the local
  variables of \<open>process_file\<close> that the loop updates.  \<open>error_counts\<close> lists the keys
  of the \<open>defaultdict\<close> in the order of their insertion.
\<close>

record parsed_record =
  rec_id :: int
  rec_name :: string
  rec_value :: pyfloat
  rec_original :: string

type_synonym rejected_record = "nat \<times> string \<times> string list"

record scan_state =
  total_records :: nat
  valid_records :: "parsed_record list"
  invalid_records :: "rejected_record list"
  error_counts :: "(string \<times> nat) list"
  seen_ids :: "int set"

definition initial_state :: scan_state where
  "initial_state =
     \<lparr>total_records = 0, valid_records = [], invalid_records = [], error_counts = [],
      seen_ids = {}\<rparr>"

text \<open>\<open>error_counts[k] += 1\<close>\<close>

fun bump :: "string \<Rightarrow> (string \<times> nat) list \<Rightarrow> (string \<times> nat) list" where
  "bump k [] = [(k, 1)]"
| "bump k ((k', n) # kvs) = (if k = k' then (k', n + 1) # kvs else (k', n) # bump k kvs)"

text \<open>
  The second parse of an accepted line, lines 77 to 85; \<open>None\<close> stands for the
  \<open>ValueError\<close> or \<open>IndexError\<close> that the \<open>try\<close> catches.
\<close>

definition build_record :: "string list \<Rightarrow> string \<Rightarrow> parsed_record option" where
  "build_record parts original =
     (if length parts < 1 then None
      else
        (case py_int (parts ! 0) of
           None \<Rightarrow> None
         | Some id_num \<Rightarrow>
             if length parts < 2 then None
             else if length parts < 3 then None
             else
               (case py_float (parts ! 2) of
                  None \<Rightarrow> None
                | Some v \<Rightarrow>
                    Some \<lparr>rec_id = id_num, rec_name = parts ! 1, rec_value = v,
                          rec_original = original\<rparr>)))"

text \<open>The body of the loop for one line; an exception leaves the loop.\<close>

definition process_line ::
    "string \<Rightarrow> nat \<times> string \<Rightarrow> scan_state \<Rightarrow> py_exception + scan_state" where
  "process_line delimiter numbered st =
     (case numbered of
        (line_num, line) \<Rightarrow>
          (let st1 = st\<lparr>total_records := total_records st + 1\<rparr>
           in case validate_record line delimiter (seen_ids st1) of
                (Inl e, seen) \<Rightarrow> Inl e
              | (Inr (is_valid, errors), seen) \<Rightarrow>
                  (let st2 = st1\<lparr>seen_ids := seen\<rparr>
                   in if is_valid
                      then
                        (case py_split (py_strip line) delimiter of
                           Inl e \<Rightarrow> Inl e
                         | Inr parts \<Rightarrow>
                             (case build_record parts (py_strip line) of
                                Some r \<Rightarrow> Inr (st2\<lparr>valid_records := valid_records st2 @ [r]\<rparr>)
                              | None \<Rightarrow>
                                  Inr (st2
                                    \<lparr>invalid_records :=
                                       invalid_records st2 @
                                       [(line_num, py_strip line, [msg_internal_processing])],
                                     error_counts :=
                                       bump msg_internal_processing (error_counts st2)\<rparr>)))
                      else
                        Inr (st2
                          \<lparr>invalid_records :=
                             invalid_records st2 @ [(line_num, py_strip line, errors)],
                           error_counts := foldl (\<lambda>m error. bump error m) (error_counts st2) errors\<rparr>))))"

fun scan :: "string \<Rightarrow> (nat \<times> string) list \<Rightarrow> scan_state \<Rightarrow> py_exception + scan_state" where
  "scan delimiter [] st = Inr st"
| "scan delimiter (numbered # rest) st =
     (case process_line delimiter numbered st of
        Inl e \<Rightarrow> Inl e
      | Inr st' \<Rightarrow> scan delimiter rest st')"

text \<open>\<open>enumerate(f, start=1)\<close>, and the whole loop from the initial values.\<close>

definition scan_lines :: "string \<Rightarrow> string list \<Rightarrow> py_exception + scan_state" where
  "scan_lines delimiter lines = scan delimiter (enumerate 1 lines) initial_state"

subsection \<open>The aggregates\<close>

record aggregates =
  avg_value :: pynum
  max_value :: pynum
  min_value :: pynum
  min_id :: int
  max_id :: int
  unique_ids_count :: nat

definition compute_aggregates :: "parsed_record list \<Rightarrow> aggregates" where
  "compute_aggregates valid =
     (case valid of
        [] \<Rightarrow>
          \<lparr>avg_value = PyInt 0, max_value = PyInt 0, min_value = PyInt 0,
           min_id = 0, max_id = 0, unique_ids_count = 0\<rparr>
      | r # rs \<Rightarrow>
          (let vals = map rec_value valid; ids = map rec_id valid
           in \<lparr>avg_value = PyFloat (flt_div (py_sum vals) (float_of_int (int (length vals)))),
               max_value = PyFloat (py_max (rec_value r) (map rec_value rs)),
               min_value = PyFloat (py_min (rec_value r) (map rec_value rs)),
               min_id = foldl min (rec_id r) (map rec_id rs),
               max_id = foldl max (rec_id r) (map rec_id rs),
               unique_ids_count = card (set ids)\<rparr>))"

subsection \<open>The report\<close>

definition invalid_detail :: "rejected_record \<Rightarrow> string list" where
  "invalid_detail rej =
     (case rej of
        (line_num, original, errors) \<Rightarrow>
          (if length errors = 1
           then [txt_line @ show_nat line_num @ '': '' @ original,
                 txt_one_error @ errors ! 0]
           else [txt_line @ show_nat line_num @ '': '' @ original,
                 txt_found @ show_nat (length errors) @ txt_errors_suffix] @
                map (\<lambda>(i, error). ''        '' @ show_nat i @ ''. '' @ error)
                  (enumerate 1 errors)) @
          [[]])"

definition valid_line :: "parsed_record \<Rightarrow> string" where
  "valid_line r =
     ''  ID: '' @ rjust 4 (show_int (rec_id r)) @ txt_name_column @ ljust 15 (rec_name r) @
     '' | Value: '' @ rjust 7 (format_2f (rec_value r))"

definition report_lines :: "scan_state \<Rightarrow> string list" where
  "report_lines st =
     (let agg = compute_aggregates (valid_records st)
      in [replicate 70 CHR ''='', txt_title, replicate 70 CHR ''='',
          txt_total @ show_nat (total_records st),
          txt_valid_count @ show_nat (length (valid_records st)),
          txt_invalid_count @ show_nat (length (invalid_records st)),
          txt_unique_ids @ show_nat (unique_ids_count agg),
          txt_error_total @ show_nat (sum_list (map snd (error_counts st))),
          txt_stats_header,
          txt_id_range @ show_int (min_id agg) @ '' - '' @ show_int (max_id agg),
          txt_avg @ format_num_2f (avg_value agg),
          txt_max @ format_num_2f (max_value agg),
          txt_min @ format_num_2f (min_value agg)] @
         [txt_tally_header] @
         map (\<lambda>(error, count). ''  - '' @ error @ '': '' @ show_nat count)
           (sort_key fst (error_counts st)) @
         [txt_invalid_header] @
         (if invalid_records st \<noteq> [] then concat (map invalid_detail (invalid_records st))
          else [txt_no_invalid]) @
         [txt_valid_header] @
         (if valid_records st \<noteq> [] then map valid_line (sort_key rec_id (valid_records st))
          else [txt_no_valid]))"

definition report_text :: "scan_state \<Rightarrow> string" where
  "report_text st = py_join [CHR 0x0A] (report_lines st)"

subsection \<open>Files, \<open>process_file\<close> and the command line\<close>

text \<open>
  A file system maps a path to a file: a text, or a file whose opening or reading raises
  an exception other than \<open>FileNotFoundError\<close>, with the exception's text.  A path
  without a file raises \<open>FileNotFoundError\<close> when it is opened for reading.
  \<open>write_errors\<close> gives the paths that cannot be opened for writing, with the
  exception's text.
\<close>

datatype file_node = Text string | Unreadable string

record filesystem =
  files :: "string \<Rightarrow> file_node option"
  write_errors :: "string \<Rightarrow> string option"

text \<open>
  The lines a text file yields in text mode: each ends where a line feed, a carriage
  return or the pair of both ends it, and carries a line feed then; \<open>acc\<close> holds,
  reversed, the line read so far.
\<close>

fun py_lines :: "string \<Rightarrow> string \<Rightarrow> string list" where
  "py_lines acc [] = (if acc = [] then [] else [rev acc])"
| "py_lines acc (c # cs) =
     (if c = CHR 0x0A then rev (CHR 0x0A # acc) # py_lines [] cs
      else if c = CHR 0x0D
      then rev (CHR 0x0A # acc) # py_lines [] (if cs \<noteq> [] \<and> hd cs = CHR 0x0A then tl cs else cs)
      else py_lines (c # acc) cs)"

datatype outcome = Returned | Exited nat

text \<open>
  \<open>process_file\<close> gives what it prints, whether it returns or exits (and with which
  status), and the file system it leaves.
\<close>

definition process_file ::
    "filesystem \<Rightarrow> string \<Rightarrow> string \<Rightarrow> string \<Rightarrow> string list \<times> outcome \<times> filesystem" where
  "process_file fs input_path delimiter output_path =
     (case files fs input_path of
        None \<Rightarrow>
          ([msg_file_not_found_prefix @ input_path @ msg_file_not_found_suffix], Exited 1, fs)
      | Some (Unreadable e) \<Rightarrow> ([msg_read_error_prefix @ e], Exited 1, fs)
      | Some (Text contents) \<Rightarrow>
          (case scan_lines delimiter (py_lines [] contents) of
             Inl (ValueError e) \<Rightarrow> ([msg_read_error_prefix @ e], Exited 1, fs)
           | Inr st \<Rightarrow>
               (case write_errors fs output_path of
                  None \<Rightarrow>
                    ([msg_saved_prefix @ output_path], Returned,
                     fs\<lparr>files := (files fs)(output_path \<mapsto> Text (report_text st))\<rparr>)
                | Some e \<Rightarrow> ([msg_save_error_prefix @ e], Returned, fs))))"

text \<open>
  The script part: \<open>argv\<close> is \<open>sys.argv\<close>; the result is what is printed, the exit
  status of the process and the file system it leaves.
\<close>

definition main :: "string list \<Rightarrow> filesystem \<Rightarrow> string list \<times> nat \<times> filesystem" where
  "main argv fs =
     (if length argv < 2 then (usage_lines, 1, fs)
      else
        (let input_file = argv ! 1;
             delimiter = (if 2 < length argv then argv ! 2 else '','');
             output_file = (if 3 < length argv then argv ! 3 else ''report.txt'')
         in case process_file fs input_file delimiter output_file of
              (out, Returned, fs') \<Rightarrow> (out, 0, fs')
            | (out, Exited n, fs') \<Rightarrow> (out, n, fs')))"

section \<open>The specification's wording of the validator\<close>

text \<open>
  The rules of the specification for the three fields, each giving the error it triggers
  if any: an identifier is in error "empty identifier" if blank after trimming, else
  "invalid identifier format" if it does not parse as an integer, else "duplicate
  identifier" if the integer is in the set of seen identifiers; a name is in error "empty
  name" if blank; a value is in error "empty value" if blank, else "invalid numeric
  value" if it does not parse as a float, else "negative value" if the float is negative.
  The errors are collected in the order identifier, name, value, each behind the label of
  its field.
\<close>

definition spec_id_error :: "string \<Rightarrow> int set \<Rightarrow> string option" where
  "spec_id_error field seen =
     (if py_strip field = [] then Some msg_empty_id
      else if py_int field = None then Some msg_bad_id_format
      else if the (py_int field) \<in> seen then Some msg_duplicate_id
      else None)"

definition spec_name_error :: "string \<Rightarrow> string option" where
  "spec_name_error field = (if py_strip field = [] then Some msg_empty_name else None)"

definition spec_value_error :: "string \<Rightarrow> string option" where
  "spec_value_error field =
     (if py_strip field = [] then Some msg_empty_value
      else if py_float field = None then Some msg_bad_value
      else if flt_less (the (py_float field)) (float_of_int 0) then Some msg_negative_value
      else None)"

definition labelled :: "string \<Rightarrow> string option \<Rightarrow> string list" where
  "labelled label e = (case e of None \<Rightarrow> [] | Some m \<Rightarrow> [label @ '': '' @ m])"

definition spec_errors :: "string \<Rightarrow> string \<Rightarrow> string \<Rightarrow> int set \<Rightarrow> string list" where
  "spec_errors id_field name_field value_field seen =
     labelled ''ID'' (spec_id_error id_field seen) @
     labelled ''Name'' (spec_name_error name_field) @
     labelled ''Value'' (spec_value_error value_field)"


text \<open>
  The four lines of the specification's scenario, as the file iterator yields them, and
  the state in which the scan of them ends.
\<close>

definition scenario_lines :: "string list" where
  "scenario_lines =
     [''1,Widget,10.5'' @ [CHR 0x0A], ''1,Gadget,-3'' @ [CHR 0x0A], '',NoId,5'' @ [CHR 0x0A],
      ''abc,Name,notanumber'']"

definition scenario_final :: scan_state where
  "scenario_final =
     \<lparr>total_records = 4,
      valid_records =
        [\<lparr>rec_id = 1, rec_name = ''Widget'', rec_value = FFinite False (21 / 2),
          rec_original = ''1,Widget,10.5''\<rparr>],
      invalid_records =
        [(2, ''1,Gadget,-3'', [''ID: '' @ msg_duplicate_id, ''Value: '' @ msg_negative_value]),
         (3, '',NoId,5'', [''ID: '' @ msg_empty_id]),
         (4, ''abc,Name,notanumber'', [''ID: '' @ msg_bad_id_format, ''Value: '' @ msg_bad_value])],
      error_counts =
        [(''ID: '' @ msg_duplicate_id, 1), (''Value: '' @ msg_negative_value, 1),
         (''ID: '' @ msg_empty_id, 1), (''ID: '' @ msg_bad_id_format, 1),
         (''Value: '' @ msg_bad_value, 1)],
      seen_ids = {1}\<rparr>"

definition scenario_text :: string where
  "scenario_text =
     ''1,Widget,10.5'' @ [CHR 0x0A] @ ''1,Gadget,-3'' @ [CHR 0x0A] @ '',NoId,5'' @ [CHR 0x0A] @
     ''abc,Name,notanumber''"

text \<open>
  A line whose value field is \<open>nan\<close>, and the state in which the scan of this one line
  ends.
\<close>

definition nan_line :: string where
  "nan_line = ''1,a,nan''"

definition nan_final :: scan_state where
  "nan_final =
     \<lparr>total_records = 1,
      valid_records =
        [\<lparr>rec_id = 1, rec_name = ''a'', rec_value = FNaN, rec_original = ''1,a,nan''\<rparr>],
      invalid_records = [], error_counts = [], seen_ids = {1}\<rparr>"

section \<open>The invariant of the scan\<close>

text \<open>
  During the loop, \<open>seen_ids\<close> holds the identifiers of the valid records and no others,
  these identifiers are pairwise distinct, and each line counted has gone to exactly one
  of the two lists.
\<close>

definition scan_invariant :: "scan_state \<Rightarrow> bool" where
  "scan_invariant st \<longleftrightarrow>
     seen_ids st = rec_id ` set (valid_records st) \<and>
     distinct (map rec_id (valid_records st)) \<and>
     total_records st = length (valid_records st) + length (invalid_records st)"

section \<open>Properties of the validator\<close>

subsection \<open>When a block of checks reports nothing\<close>

lemma id_errors_empty:
  "id_errors i seen = [] \<longleftrightarrow> py_strip i \<noteq> [] \<and> (\<exists>k. py_int i = Some k \<and> k \<notin> seen)"
  by (auto simp: id_errors_def split: option.splits if_splits)

lemma name_errors_empty: "name_errors n = [] \<longleftrightarrow> py_strip n \<noteq> []"
  by (simp add: name_errors_def)

lemma value_errors_empty:
  "value_errors v = [] \<longleftrightarrow>
     py_strip v \<noteq> [] \<and> (\<exists>x. py_float v = Some x \<and> \<not> flt_less x (float_of_int 0))"
  by (auto simp: value_errors_def split: option.splits if_splits)

subsection \<open>The set of seen identifiers on the failure paths\<close>

text \<open>
  Claim C4.  \<open>validate_record\<close> changes \<open>seen_ids\<close> only when it returns success: whenever
  its outcome is not \<open>(True, errors)\<close>, that is on the structural error, on any field
  error, on the internal-error path after the checks and when \<open>split\<close> raises, the set
  it leaves is the set it was given.
\<close>

theorem validate_record_failure_keeps_seen_ids:
  assumes "validate_record line delimiter seen = (outcome, seen')"
    and "\<forall>errors. outcome \<noteq> Inr (True, errors)"
  shows "seen' = seen"
  using assms
  by (auto simp: validate_record_def validate_parts_def Let_def
      split: sum.splits if_splits option.splits)

theorem validate_record_failure_keeps_seen_ids_witness:
  "validate_record ''1,Gadget,-3'' '','' {1} =
     (Inr (False, [''ID: '' @ msg_duplicate_id, ''Value: '' @ msg_negative_value]), {1}) \<and>
   (\<forall>errors. (Inr (False, [''ID: '' @ msg_duplicate_id, ''Value: '' @ msg_negative_value])
       :: py_exception + bool \<times> string list) \<noteq> Inr (True, errors)) \<and> {1::int} = {1}"
proof -
  have h1: "validate_record ''1,Gadget,-3'' '','' {1} =
     (Inr (False, [''ID: '' @ msg_duplicate_id, ''Value: '' @ msg_negative_value]), {1})"
    by code_simp
  have h2: "\<forall>errors. (Inr (False, [''ID: '' @ msg_duplicate_id, ''Value: '' @ msg_negative_value])
       :: py_exception + bool \<times> string list) \<noteq> Inr (True, errors)" by simp
  from validate_record_failure_keeps_seen_ids [OF h1 h2] h1 h2 show ?thesis by simp
qed

subsection \<open>The structural check\<close>

text \<open>
  Claim C5.  A line that splits into a number of fields other than 3 is rejected at once:
  the result is \<open>is_valid = False\<close> with exactly one error, the message giving the
  expected count 3 and the count found; the fields themselves are not looked at, and
  \<open>seen_ids\<close> is unchanged.
\<close>

theorem validate_record_field_count:
  assumes "py_split (py_strip line) delimiter = Inr parts" and "length parts \<noteq> 3"
  shows "validate_record line delimiter seen =
     (Inr (False, [msg_field_count_prefix @ show_nat (length parts)]), seen)"
  using assms by (simp add: validate_record_def validate_parts_def)

theorem validate_record_field_count_witness:
  "py_split (py_strip ''a,b'') '','' = Inr [''a'', ''b''] \<and> length [''a'', ''b''] \<noteq> 3 \<and>
   validate_record ''a,b'' '','' {5} = (Inr (False, [msg_field_count_prefix @ ''2'']), {5})"
proof -
  have h1: "py_split (py_strip ''a,b'') '','' = Inr [''a'', ''b'']" by code_simp
  have h2: "length [''a'', ''b''] \<noteq> 3" by simp
  have h3: "show_nat (length [''a'', ''b'']) = ''2''" by code_simp
  from validate_record_field_count [OF h1 h2, of "{5}"] h1 h2 h3 show ?thesis by simp
qed

subsection \<open>All errors of a line with three fields\<close>

lemma id_errors_spec:
  "map (\<lambda>error. ''ID: '' @ error) (id_errors i seen) = labelled ''ID'' (spec_id_error i seen)"
  by (auto simp: id_errors_def spec_id_error_def labelled_def split: option.splits)

lemma name_errors_spec:
  "map (\<lambda>error. ''Name: '' @ error) (name_errors n) = labelled ''Name'' (spec_name_error n)"
  by (auto simp: name_errors_def spec_name_error_def labelled_def)

lemma value_errors_spec:
  "map (\<lambda>error. ''Value: '' @ error) (value_errors v) =
   labelled ''Value'' (spec_value_error v)"
  by (auto simp: value_errors_def spec_value_error_def labelled_def split: option.splits)

text \<open>
  With three fields the result is the list of the specification's errors, and success
  exactly when that list is empty: the internal-error path after the checks is never
  taken, since an identifier without error has been parsed already.
\<close>

lemma validate_parts_three:
  "fst (validate_parts [i, n, v] seen) =
   Inr (spec_errors i n v seen = [], spec_errors i n v seen)"
proof (cases "spec_errors i n v seen = []")
  case True
  then have "id_errors i seen = []"
    by (simp add: spec_errors_def id_errors_spec [symmetric])
  then obtain k where "py_int i = Some k"
    by (auto simp: id_errors_empty)
  with True show ?thesis
    by (simp add: validate_parts_def Let_def spec_errors_def id_errors_spec name_errors_spec
        value_errors_spec)
next
  case False
  then show ?thesis
    by (simp add: validate_parts_def Let_def spec_errors_def id_errors_spec name_errors_spec
        value_errors_spec)
qed

lemma id_messages_distinct:
  "msg_bad_id_format \<noteq> msg_duplicate_id" "msg_duplicate_id \<noteq> msg_bad_id_format"
  "msg_empty_id \<noteq> msg_duplicate_id" "msg_duplicate_id \<noteq> msg_empty_id"
  "msg_empty_id \<noteq> msg_bad_id_format" "msg_bad_id_format \<noteq> msg_empty_id"
  by (simp_all add: msg_bad_id_format_def msg_duplicate_id_def msg_empty_id_def)

lemma format_and_duplicate_exclusive:
  "\<not> (''ID: '' @ msg_bad_id_format \<in> set (spec_errors i n v seen) \<and>
      ''ID: '' @ msg_duplicate_id \<in> set (spec_errors i n v seen))"
  by (auto simp: spec_errors_def labelled_def spec_id_error_def id_messages_distinct
      split: option.splits if_splits)

lemma scenario_lines_of_text: "py_lines [] scenario_text = scenario_lines"
  by code_simp

lemma scenario_scan: "scan_lines '','' scenario_lines = Inr scenario_final"
  by code_simp

lemma scenario_counts:
  "length (valid_records scenario_final) = 1 \<and> length (invalid_records scenario_final) = 3 \<and>
   unique_ids_count (compute_aggregates (valid_records scenario_final)) = 1"
  by (simp add: scenario_final_def compute_aggregates_def)

text \<open>
  Claim C2.  For a line with exactly three fields \<open>validate_record\<close> applies the rules of
  all three fields, none cut short by an error of another field, and returns every error
  triggered, each behind its label \<open>ID:\<close>, \<open>Name:\<close> or \<open>Value:\<close>, in the order
  identifier, name, value; it succeeds exactly when there is no error.  The errors
  "invalid identifier format" and "duplicate identifier" never occur together.  On the four
  lines of the scenario, with the delimiter \<open>,\<close>: line 1 is accepted, line 2 is rejected
  for a duplicate identifier and a negative value, line 3 for an empty identifier, line 4
  for an invalid identifier format and an invalid numeric value; there are 1 valid and 3
  invalid records and 1 unique identifier.
\<close>

theorem validate_record_collects_all_errors:
  "(py_split (py_strip line) delimiter = Inr [id_field, name_field, value_field] \<longrightarrow>
      fst (validate_record line delimiter seen) =
        Inr (spec_errors id_field name_field value_field seen = [],
             spec_errors id_field name_field value_field seen) \<and>
      \<not> (''ID: '' @ msg_bad_id_format \<in> set (spec_errors id_field name_field value_field seen) \<and>
         ''ID: '' @ msg_duplicate_id \<in> set (spec_errors id_field name_field value_field seen))) \<and>
   py_lines [] scenario_text = scenario_lines \<and>
   scan_lines '','' scenario_lines = Inr scenario_final \<and>
   length (valid_records scenario_final) = 1 \<and>
   length (invalid_records scenario_final) = 3 \<and>
   unique_ids_count (compute_aggregates (valid_records scenario_final)) = 1"
  using format_and_duplicate_exclusive [of id_field name_field value_field seen]
    scenario_lines_of_text scenario_scan scenario_counts
  by (simp add: validate_record_def validate_parts_three)

theorem validate_record_collects_all_errors_witness:
  "py_split (py_strip ''1,Gadget,-3'') '','' = Inr [''1'', ''Gadget'', ''-3''] \<and>
   fst (validate_record ''1,Gadget,-3'' '','' {1}) =
     Inr (False, [''ID: '' @ msg_duplicate_id, ''Value: '' @ msg_negative_value])"
proof -
  have h: "py_split (py_strip ''1,Gadget,-3'') '','' = Inr [''1'', ''Gadget'', ''-3'']"
    by code_simp
  have e: "spec_errors ''1'' ''Gadget'' ''-3'' {1} =
      [''ID: '' @ msg_duplicate_id, ''Value: '' @ msg_negative_value]"
    by code_simp
  from validate_record_collects_all_errors
    [where line = "''1,Gadget,-3''" and delimiter = "'',''" and id_field = "''1''"
       and name_field = "''Gadget''" and value_field = "''-3''" and seen = "{1}"]
    h e
  show ?thesis by simp
qed

subsection \<open>What an accepted record satisfies\<close>

text \<open>
  An accepted line has three fields: an identifier that parses as an integer not seen
  before, a name that is not blank, and a value that parses as a float which does not
  compare less than zero.
\<close>

lemma length_three: "length xs = 3 \<Longrightarrow> xs = [xs ! 0, xs ! 1, xs ! 2]"
  by (cases xs; cases "tl xs"; cases "tl (tl xs)") auto

lemma validate_parts_accepted:
  assumes "validate_parts parts seen = (Inr (True, errs), seen')"
  shows "length parts = 3 \<and> errs = [] \<and>
     (\<exists>k x. py_int (parts ! 0) = Some k \<and> k \<notin> seen \<and> seen' = insert k seen \<and>
        py_strip (parts ! 1) \<noteq> [] \<and> py_float (parts ! 2) = Some x \<and>
        \<not> flt_less x (float_of_int 0))"
proof -
  from assms have len: "length parts = 3"
    by (auto simp: validate_parts_def split: if_splits)
  from assms len have none:
    "id_errors (parts ! 0) seen = []" "name_errors (parts ! 1) = []"
    "value_errors (parts ! 2) = []"
    by (auto simp: validate_parts_def Let_def split: if_splits option.splits)
  from none(1) obtain k where k: "py_int (parts ! 0) = Some k" "k \<notin> seen"
    by (auto simp: id_errors_empty)
  from assms len none k have "errs = []" "seen' = insert k seen"
    by (auto simp: validate_parts_def Let_def)
  with len none k show ?thesis
    by (auto simp: name_errors_empty value_errors_empty)
qed

lemma validate_record_accepted:
  assumes "validate_record line delimiter seen = (Inr (True, errs), seen')"
  shows "\<exists>i n v k x. py_split (py_strip line) delimiter = Inr [i, n, v] \<and> errs = [] \<and>
     py_int i = Some k \<and> k \<notin> seen \<and> seen' = insert k seen \<and> py_strip n \<noteq> [] \<and>
     py_float v = Some x \<and> \<not> flt_less x (float_of_int 0)"
proof -
  from assms obtain parts where p: "py_split (py_strip line) delimiter = Inr parts"
    and v: "validate_parts parts seen = (Inr (True, errs), seen')"
    by (auto simp: validate_record_def split: sum.splits)
  from validate_parts_accepted [OF v] length_three [of parts] p show ?thesis
    by metis
qed

text \<open>A float that is no NaN and does not compare less than zero is at least zero.\<close>

lemma not_less_zero_ge: "x \<noteq> FNaN \<Longrightarrow> \<not> flt_less x (float_of_int 0) \<Longrightarrow> flt_ge x (float_of_int 0)"
  by (cases x) (simp_all add: float_of_int_def round64_def)

text \<open>
  Claim C1 fails on the code.  The claim: every accepted record has a value that parses as
  a float that is at least zero (and an integer identifier and a name that is not blank),
  and the scan ends with as many valid records as there are lines less the rejected ones.
  The line \<open>1,a,nan\<close> is accepted, although its value parses as a NaN, which is not at
  least zero: \<open>validate_record\<close> only asks whether the value is less than zero, and no
  comparison with a NaN holds.  The scan of this line ends with the record among the
  valid ones.
\<close>

theorem validate_record_accepts_nan:
  "validate_record nan_line '','' {} = (Inr (True, []), {1}) \<and>
   py_split (py_strip nan_line) '','' = Inr [''1'', ''a'', ''nan''] \<and>
   py_float ''nan'' = Some FNaN \<and>
   \<not> flt_ge FNaN (float_of_int 0) \<and>
   scan_lines '','' [nan_line] = Inr nan_final"
proof -
  have a: "validate_record nan_line '','' {} = (Inr (True, []), {1})" by code_simp
  have b: "py_split (py_strip nan_line) '','' = Inr [''1'', ''a'', ''nan'']" by code_simp
  have c: "py_float ''nan'' = Some FNaN" by code_simp
  have d: "scan_lines '','' [nan_line] = Inr nan_final" by code_simp
  from a b c d show ?thesis by simp
qed

subsection \<open>The trimming before the split\<close>















end
